theory Spec2Isabelle
  imports Complex_Main
begin

section \<open>Python errors and the random module\<close>

datatype pyerror = ValueError | IndexError | KeyError | ZeroDivisionError | AttributeError

text \<open>
  The generator behind Python's \<open>random\<close> module is an external collaborator. It is
  modelled as an arbitrary infinite tape of raw draws; every call consumes the head of
  the tape. All results below hold for every tape.
\<close>

type_synonym rng = "nat \<Rightarrow> nat"

definition advance :: "(nat \<Rightarrow> 'a) \<Rightarrow> (nat \<Rightarrow> 'a)" where
  "advance g = (\<lambda>i. g (Suc i))"

text \<open>\<open>random.random()\<close>: a 53-bit fraction in the half-open unit interval.\<close>

definition random_random :: "rng \<Rightarrow> rat \<times> rng" where
  "random_random g = (of_int (int (g 0) mod 2 ^ 53) / 2 ^ 53, advance g)"

text \<open>\<open>random.choice(seq)\<close>: IndexError on an empty sequence.\<close>

definition random_choice :: "'a list \<Rightarrow> rng \<Rightarrow> pyerror + ('a \<times> rng)" where
  "random_choice xs g =
     (if xs = [] then Inl IndexError else Inr (xs ! (g 0 mod length xs), advance g))"

text \<open>
  \<open>random.sample(population, k)\<close>: ValueError when the sample is larger than the
  population; otherwise \<open>k\<close> rounds of the pool algorithm: pick an index below the
  current pool size, emit that element, move the last pool element into the vacancy.
\<close>

fun sample_pool :: "'a list \<Rightarrow> nat \<Rightarrow> rng \<Rightarrow> 'a list \<times> rng" where
  "sample_pool pool 0 g = ([], g)"
| "sample_pool pool (Suc k) g =
     (let j = g 0 mod length pool;
          x = pool ! j;
          pool' = butlast (pool[j := last pool]);
          (rest, g') = sample_pool pool' k (advance g)
      in (x # rest, g'))"

definition random_sample :: "'a list \<Rightarrow> nat \<Rightarrow> rng \<Rightarrow> pyerror + ('a list \<times> rng)" where
  "random_sample population k g =
     (if length population < k then Inl ValueError else Inr (sample_pool population k g))"

section \<open>Events, the wall clock and the world outside the program\<close>

datatype key = K_SPACE | K_ESCAPE | K_RETURN | K_OTHER

datatype event = QUIT | KEYDOWN key | MOUSEBUTTONDOWN nat "int \<times> int" | OTHER_EVENT

text \<open>
  \<open>polls\<close> is the script of the environment: the successive results of
  \<open>pygame.event.get()\<close>, each paired with the pointer position that
  \<open>pygame.mouse.get_pos()\<close> reports while that batch is processed. After the script no
  event arrives any more. \<open>clk\<close> is the tape of wall-clock readings, one per call of
  \<open>time.time()\<close>. \<open>files\<close> is what the program has persisted.
\<close>

type_synonym poll = "event list \<times> (int \<times> int)"

record 'f world =
  rnd :: rng
  clk :: "nat \<Rightarrow> rat"
  polls :: "poll list"
  files :: 'f

definition time_time :: "'f world \<Rightarrow> rat \<times> 'f world" where
  "time_time w = (clk w 0, w\<lparr>clk := advance (clk w)\<rparr>)"

definition event_get :: "'f world \<Rightarrow> poll \<times> 'f world" where
  "event_get w = (case polls w of [] \<Rightarrow> (([], (0, 0)), w) | b # bs \<Rightarrow> (b, w\<lparr>polls := bs\<rparr>))"

text \<open>
  How a call ends: it returns, the process exits (\<open>sys.exit()\<close>), it waits for input
  for ever (a blocking loop after the end of the script), an exception escapes, or the
  bound on main-loop iterations of the model is used up.
\<close>

datatype 'a outcome =
    is_Returned: Returned (final: 'a)
  | is_Exited: Exited (final: 'a)
  | is_Blocked: Blocked (final: 'a)
  | is_Raised: Raised pyerror (final: 'a)
  | is_OutOfFuel: OutOfFuel (final: 'a)

text \<open>\<open>round(x, 3)\<close>: to the nearest multiple of one thousandth, ties to even.\<close>

definition round_half_even :: "rat \<Rightarrow> int" where
  "round_half_even x =
     (let f = \<lfloor>x\<rfloor>; d = x - of_int f
      in if d < 1 / 2 then f else if 1 / 2 < d then f + 1 else if even f then f else f + 1)"

definition round3 :: "rat \<Rightarrow> rat" where
  "round3 x = of_int (round_half_even (x * 1000)) / 1000"

section \<open>Contextual Cueing Task (tarefa3)\<close>

subsection \<open>Constants\<close>

definition WIDTH :: int where "WIDTH = 800"
definition HEIGHT :: int where "HEIGHT = 600"
definition GRID_SIZE :: nat where "GRID_SIZE = 6"
definition CELL_SIZE :: int where "CELL_SIZE = 80"
definition NUM_REPEATED_CONFIGS :: nat where "NUM_REPEATED_CONFIGS = 12"
definition NUM_NOVEL_CONFIGS :: nat where "NUM_NOVEL_CONFIGS = 12"
definition NUM_BLOCKS :: nat where "NUM_BLOCKS = 5"
definition NUM_ITEMS :: nat where "NUM_ITEMS = 12"
definition STIM_SIZE :: int where "STIM_SIZE = 30"

text \<open>
  \<open>GRID_START_X\<close> and \<open>GRID_START_Y\<close> depend on the grid size; the grid size and the item
  count are arguments of the generator so that its precondition can be stated. The
  program runs it at \<open>GRID_SIZE\<close> and \<open>NUM_ITEMS\<close>.
\<close>

definition GRID_START_X :: "nat \<Rightarrow> int" where
  "GRID_START_X gs = (WIDTH - int gs * CELL_SIZE) div 2"

definition GRID_START_Y :: "nat \<Rightarrow> int" where
  "GRID_START_Y gs = (HEIGHT - int gs * CELL_SIZE) div 2"

subsection \<open>Stimulus\<close>

record stimulus =
  stim_type :: char
  position :: "nat \<times> nat"
  rotation :: nat
  screen_pos :: "int \<times> int"

definition Stimulus :: "nat \<Rightarrow> char \<Rightarrow> nat \<times> nat \<Rightarrow> nat \<Rightarrow> stimulus" where
  "Stimulus gs ty pos rot =
     \<lparr> stim_type = ty, position = pos, rotation = rot,
       screen_pos = (GRID_START_X gs + int (fst pos) * CELL_SIZE + CELL_SIZE div 2,
                     GRID_START_Y gs + int (snd pos) * CELL_SIZE + CELL_SIZE div 2) \<rparr>"

definition contains_point :: "stimulus \<Rightarrow> int \<times> int \<Rightarrow> bool" where
  "contains_point st point =
     (let (x, y) = point;
          (center_x, center_y) = screen_pos st;
          radius = STIM_SIZE div 2
      in (x - center_x) ^ 2 + (y - center_y) ^ 2 \<le> radius ^ 2)"

subsection \<open>Configuration\<close>

record configuration =
  config_id :: int
  is_repeated :: bool
  stimuli :: "stimulus list"
  target :: stimulus

definition rotations :: "nat list" where
  "rotations = [0, 90, 180, 270]"

text \<open>The loop \<open>for i in range(1, NUM_ITEMS)\<close> over the remaining sampled positions.\<close>

fun distractors :: "nat \<Rightarrow> (nat \<times> nat) list \<Rightarrow> rng \<Rightarrow> pyerror + (stimulus list \<times> rng)" where
  "distractors gs [] g = Inr ([], g)"
| "distractors gs (distractor_pos # ps) g =
     (case random_choice rotations g of
        Inl e \<Rightarrow> Inl e
      | Inr (distractor_rotation, g') \<Rightarrow>
          (case distractors gs ps g' of
             Inl e \<Rightarrow> Inl e
           | Inr (ds, g'') \<Rightarrow>
               Inr (Stimulus gs (CHR ''L'') distractor_pos distractor_rotation # ds, g'')))"

definition grid_positions :: "nat \<Rightarrow> (nat \<times> nat) list" where
  "grid_positions gs = List.product [0..<gs] [0..<gs]"

text \<open>
  \<open>Configuration.__init__\<close> followed by \<open>generate\<close>. \<open>selected_positions[0]\<close> raises
  IndexError when no position was sampled.
\<close>

definition generate ::
  "nat \<Rightarrow> nat \<Rightarrow> int \<Rightarrow> bool \<Rightarrow> rng \<Rightarrow> pyerror + (configuration \<times> rng)" where
  "generate gs num_items cid rep g =
     (case random_sample (grid_positions gs) num_items g of
        Inl e \<Rightarrow> Inl e
      | Inr (selected_positions, g1) \<Rightarrow>
          (case selected_positions of
             [] \<Rightarrow> Inl IndexError
           | target_pos # others \<Rightarrow>
               (case random_choice rotations g1 of
                  Inl e \<Rightarrow> Inl e
                | Inr (target_rotation, g2) \<Rightarrow>
                    (let tgt = Stimulus gs (CHR ''T'') target_pos target_rotation
                     in case distractors gs others g2 of
                          Inl e \<Rightarrow> Inl e
                        | Inr (ds, g3) \<Rightarrow>
                            Inr (\<lparr> config_id = cid, is_repeated = rep,
                                   stimuli = tgt # ds, target = tgt \<rparr>, g3)))))"

definition Configuration :: "int \<Rightarrow> bool \<Rightarrow> rng \<Rightarrow> pyerror + (configuration \<times> rng)" where
  "Configuration cid rep g = generate GRID_SIZE NUM_ITEMS cid rep g"

subsection \<open>Experiment: the session controller of the CCT\<close>

datatype phase = Welcome | Fixation | Trial | Break | End

record trial_data =
  td_participant :: string
  td_block :: nat
  td_trial :: nat
  td_configuration_id :: int
  td_is_repeated :: bool
  td_response_time :: rat
  td_is_correct :: bool
  td_target_position :: "nat \<times> nat"

record cct_experiment =
  participant_id :: string
  repeated_configs :: "configuration list"
  trial_results :: "trial_data list"
  current_block :: nat
  current_trial :: nat
  total_trials :: nat
  state :: phase
  current_config :: "configuration option"
  trial_start_time :: rat
  fixation_start_time :: rat
  fixation_duration :: rat

text \<open>The per-block line and the summary of the analysis file.\<close>

record report =
  block_lines :: "(nat \<times> rat \<times> rat \<times> rat) list"
  accuracy :: rat
  contextual_effect :: "rat option"

record cct_files =
  csv_file :: "trial_data list option"
  txt_file :: "report option"

type_synonym cct = "cct_experiment \<times> cct_files world"

definition Experiment :: cct_experiment where
  "Experiment =
     \<lparr> participant_id = [], repeated_configs = [], trial_results = [],
       current_block = 0, current_trial = 0, total_trials = 0, state = Welcome,
       current_config = None, trial_start_time = 0, fixation_start_time = 0,
       fixation_duration = 1 / 2 \<rparr>"

text \<open>The comprehension \<open>[Configuration(i, True) for i in range(NUM_REPEATED_CONFIGS)]\<close>.\<close>

fun make_configs :: "nat list \<Rightarrow> rng \<Rightarrow> pyerror + (configuration list \<times> rng)" where
  "make_configs [] g = Inr ([], g)"
| "make_configs (i # is) g =
     (case Configuration (int i) True g of
        Inl e \<Rightarrow> Inl e
      | Inr (c, g') \<Rightarrow>
          (case make_configs is g' of
             Inl e \<Rightarrow> Inl e
           | Inr (cs, g'') \<Rightarrow> Inr (c # cs, g'')))"

definition setup_experiment :: "cct \<Rightarrow> cct outcome" where
  "setup_experiment sw =
     (let (s, w) = sw
      in case make_configs [0..<NUM_REPEATED_CONFIGS] (rnd w) of
           Inl e \<Rightarrow> Raised e sw
         | Inr (cs, g') \<Rightarrow>
             Returned (s\<lparr>repeated_configs := cs,
                          total_trials := (NUM_REPEATED_CONFIGS + NUM_NOVEL_CONFIGS) * NUM_BLOCKS\<rparr>,
                       w\<lparr>rnd := g'\<rparr>))"

text \<open>
  The blocking loops \<open>while waiting: for event in pygame.event.get(): ...\<close>. The inner
  \<open>for\<close> runs through the whole batch; \<open>None\<close> stands for \<open>sys.exit()\<close>.
\<close>

fun show_welcome_events :: "event list \<Rightarrow> bool \<Rightarrow> bool option" where
  "show_welcome_events [] waiting = Some waiting"
| "show_welcome_events (QUIT # es) waiting = None"
| "show_welcome_events (KEYDOWN k # es) waiting =
     (if k = K_SPACE then show_welcome_events es False
      else if k = K_ESCAPE then None
      else show_welcome_events es waiting)"
| "show_welcome_events (e # es) waiting = show_welcome_events es waiting"

fun show_welcome_wait :: "poll list \<Rightarrow> (bool \<times> poll list) option" where
  "show_welcome_wait [] = None"
| "show_welcome_wait (b # bs) =
     (case show_welcome_events (fst b) True of
        None \<Rightarrow> Some (False, bs)
      | Some waiting \<Rightarrow> if waiting then show_welcome_wait bs else Some (True, bs))"

definition show_welcome :: "cct \<Rightarrow> cct outcome" where
  "show_welcome sw =
     (let (s, w) = sw
      in case show_welcome_wait (polls w) of
           None \<Rightarrow> Blocked (s, w\<lparr>polls := []\<rparr>)
         | Some (ok, bs) \<Rightarrow>
             if ok then Returned (s\<lparr>state := Fixation\<rparr>, w\<lparr>polls := bs\<rparr>)
             else Exited (s, w\<lparr>polls := bs\<rparr>))"

definition prepare_trial :: "cct \<Rightarrow> cct outcome" where
  "prepare_trial sw =
     (let (s, w) = sw;
          (r, g1) = random_random (rnd w)
      in if r < 1 / 2 \<or> NUM_REPEATED_CONFIGS \<le> current_trial s then
           (case Configuration (- 1) False g1 of
              Inl e \<Rightarrow> Raised e (s, w\<lparr>rnd := g1\<rparr>)
            | Inr (c, g2) \<Rightarrow>
                (let (t, w') = time_time (w\<lparr>rnd := g2\<rparr>)
                 in Returned (s\<lparr>current_config := Some c, trial_start_time := t\<rparr>, w')))
         else
           (let config_idx = current_trial s mod NUM_REPEATED_CONFIGS
            in if config_idx < length (repeated_configs s) then
                 (let (t, w') = time_time (w\<lparr>rnd := g1\<rparr>)
                  in Returned (s\<lparr>current_config := Some (repeated_configs s ! config_idx),
                                   trial_start_time := t\<rparr>, w'))
               else Raised IndexError (s, w\<lparr>rnd := g1\<rparr>)))"

definition show_fixation :: "cct \<Rightarrow> cct outcome" where
  "show_fixation sw =
     (let (s, w) = sw;
          (s1, w1) = (if fixation_start_time s = 0
                      then (let (t, w') = time_time w in (s\<lparr>fixation_start_time := t\<rparr>, w'))
                      else (s, w));
          (now, w2) = time_time w1
      in if fixation_duration s1 \<le> now - fixation_start_time s1
         then prepare_trial (s1\<lparr>fixation_start_time := 0, state := Trial\<rparr>, w2)
         else Returned (s1, w2))"

definition record_trial :: "rat \<Rightarrow> bool \<Rightarrow> configuration \<Rightarrow> cct_experiment \<Rightarrow> cct_experiment" where
  "record_trial response_time is_correct cfg s =
     s\<lparr>trial_results := trial_results s @
         [\<lparr> td_participant = participant_id s,
            td_block = current_block s + 1,
            td_trial = current_trial s + 1,
            td_configuration_id = config_id cfg,
            td_is_repeated = is_repeated cfg,
            td_response_time = round3 response_time,
            td_is_correct = is_correct,
            td_target_position = position (target cfg) \<rparr>]\<rparr>"

definition next_trial :: "cct_experiment \<Rightarrow> cct_experiment" where
  "next_trial s =
     (let s1 = s\<lparr>current_trial := current_trial s + 1\<rparr>
      in if NUM_REPEATED_CONFIGS + NUM_NOVEL_CONFIGS \<le> current_trial s1 then
           (let s2 = s1\<lparr>current_trial := 0, current_block := current_block s1 + 1\<rparr>
            in if current_block s2 < NUM_BLOCKS then s2\<lparr>state := Break\<rparr> else s2\<lparr>state := End\<rparr>)
         else s1\<lparr>state := Fixation\<rparr>)"

text \<open>One event of the \<open>for\<close> loop of \<open>run_trial\<close>.\<close>

definition run_trial_event :: "event \<Rightarrow> cct \<Rightarrow> cct outcome" where
  "run_trial_event ev sw =
     (let (s, w) = sw
      in case ev of
           QUIT \<Rightarrow> Exited sw
         | KEYDOWN k \<Rightarrow> if k = K_ESCAPE then Returned (s\<lparr>state := End\<rparr>, w) else Returned sw
         | MOUSEBUTTONDOWN button pos \<Rightarrow>
             if button = 1 then
               (case current_config s of
                  None \<Rightarrow> Raised AttributeError sw
                | Some cfg \<Rightarrow>
                    if contains_point (target cfg) pos then
                      (let (now, w') = time_time w;
                           response_time = now - trial_start_time s
                       in Returned (next_trial (record_trial response_time True cfg s), w'))
                    else if \<exists>stim \<in> set (stimuli cfg). contains_point stim pos then
                      (let (now, w') = time_time w;
                           response_time = now - trial_start_time s
                       in Returned (next_trial (record_trial response_time False cfg s), w'))
                    else Returned sw)
             else Returned sw
         | OTHER_EVENT \<Rightarrow> Returned sw)"

fun run_trial_events :: "event list \<Rightarrow> cct \<Rightarrow> cct outcome" where
  "run_trial_events [] sw = Returned sw"
| "run_trial_events (ev # evs) sw =
     (case run_trial_event ev sw of
        Returned sw' \<Rightarrow> run_trial_events evs sw'
      | other \<Rightarrow> other)"

definition run_trial :: "cct \<Rightarrow> cct outcome" where
  "run_trial sw =
     (let (s, w) = sw
      in case current_config s of
           None \<Rightarrow> Raised AttributeError sw
         | Some cfg \<Rightarrow> (let (b, w') = event_get w in run_trial_events (fst b) (s, w')))"

fun show_break_events :: "event list \<Rightarrow> cct_experiment \<times> bool \<Rightarrow> (cct_experiment \<times> bool) option" where
  "show_break_events [] sb = Some sb"
| "show_break_events (QUIT # es) sb = None"
| "show_break_events (KEYDOWN k # es) (s, waiting) =
     (if k = K_SPACE then show_break_events es (s, False)
      else if k = K_ESCAPE then show_break_events es (s\<lparr>state := End\<rparr>, False)
      else show_break_events es (s, waiting))"
| "show_break_events (e # es) sb = show_break_events es sb"

fun show_break_wait :: "poll list \<Rightarrow> cct_experiment \<Rightarrow> (cct_experiment option \<times> poll list) option" where
  "show_break_wait [] s = None"
| "show_break_wait (b # bs) s =
     (case show_break_events (fst b) (s, True) of
        None \<Rightarrow> Some (None, bs)
      | Some (s', waiting) \<Rightarrow> if waiting then show_break_wait bs s' else Some (Some s', bs))"

definition show_break :: "cct \<Rightarrow> cct outcome" where
  "show_break sw =
     (let (s, w) = sw
      in case show_break_wait (polls w) s of
           None \<Rightarrow> Blocked (s, w\<lparr>polls := []\<rparr>)
         | Some (None, bs) \<Rightarrow> Exited (s, w\<lparr>polls := bs\<rparr>)
         | Some (Some s', bs) \<Rightarrow> Returned (s'\<lparr>state := Fixation\<rparr>, w\<lparr>polls := bs\<rparr>))"

subsection \<open>save_results: the CSV file and the analysis\<close>

text \<open>
  The data-frame library is external. What the analysis uses of it: selecting the correct
  records, grouping them by block and condition, the mean of a group, and the failure
  (KeyError) of selecting the column \<open>is_correct\<close> of a frame built from an empty list
  of records, which has no columns. The mean of no values is not a number (\<open>None\<close>).
  A frame with rows but no correct record is taken to keep its columns and their types
  through grouping, as the library does from its version 2 on.
\<close>

definition group_times :: "trial_data list \<Rightarrow> nat \<Rightarrow> bool \<Rightarrow> rat list" where
  "group_times results_df i rep =
     map td_response_time
       (filter (\<lambda>r. td_is_correct r \<and> td_block r = i \<and> td_is_repeated r = rep) results_df)"

definition mean :: "rat list \<Rightarrow> rat option" where
  "mean xs = (if xs = [] then None else Some (sum_list xs / of_nat (length xs)))"

definition block_line :: "trial_data list \<Rightarrow> nat \<Rightarrow> nat \<times> rat \<times> rat \<times> rat" where
  "block_line results_df i =
     (let rep_time = (case mean (group_times results_df i True) of Some m \<Rightarrow> m | None \<Rightarrow> 0);
          nov_time = (case mean (group_times results_df i False) of Some m \<Rightarrow> m | None \<Rightarrow> 0);
          diff = nov_time - rep_time
      in (i, rep_time, nov_time, diff))"

definition analysis :: "trial_data list \<Rightarrow> pyerror + report" where
  "analysis results_df =
     (if results_df = [] then Inl KeyError
      else
        (let mean_repeated =
               mean (map td_response_time (filter (\<lambda>r. td_is_repeated r \<and> td_is_correct r) results_df));
             mean_novel =
               mean (map td_response_time (filter (\<lambda>r. \<not> td_is_repeated r \<and> td_is_correct r) results_df))
         in Inr \<lparr> block_lines = map (block_line results_df) [1..<NUM_BLOCKS + 1],
                  accuracy = of_nat (length (filter td_is_correct results_df)) / of_nat (length results_df) * 100,
                  contextual_effect =
                    (case (mean_novel, mean_repeated) of
                       (Some n, Some r) \<Rightarrow> Some (n - r)
                     | _ \<Rightarrow> None) \<rparr>))"

text \<open>The analysis runs inside \<open>try ... except Exception\<close>: a failure leaves no report.\<close>

definition save_results :: "cct \<Rightarrow> cct" where
  "save_results sw =
     (let (s, w) = sw;
          w1 = w\<lparr>files := (files w)\<lparr>csv_file := Some (trial_results s)\<rparr>\<rparr>
      in case analysis (trial_results s) of
           Inl e \<Rightarrow> (s, w1)
         | Inr rep \<Rightarrow> (s, w1\<lparr>files := (files w1)\<lparr>txt_file := Some rep\<rparr>\<rparr>))"

fun show_end_events :: "event list \<Rightarrow> bool \<Rightarrow> bool option" where
  "show_end_events [] waiting = Some waiting"
| "show_end_events (QUIT # es) waiting = None"
| "show_end_events (KEYDOWN k # es) waiting =
     (if k = K_SPACE \<or> k = K_ESCAPE then show_end_events es False
      else show_end_events es waiting)"
| "show_end_events (e # es) waiting = show_end_events es waiting"

fun show_end_wait :: "poll list \<Rightarrow> (bool \<times> poll list) option" where
  "show_end_wait [] = None"
| "show_end_wait (b # bs) =
     (case show_end_events (fst b) True of
        None \<Rightarrow> Some (False, bs)
      | Some waiting \<Rightarrow> if waiting then show_end_wait bs else Some (True, bs))"

definition show_end :: "cct \<Rightarrow> cct outcome" where
  "show_end sw =
     (let (s, w) = sw
      in case show_end_wait (polls w) of
           None \<Rightarrow> Blocked (s, w\<lparr>polls := []\<rparr>)
         | Some (ok, bs) \<Rightarrow>
             if ok then Exited (save_results (s, w\<lparr>polls := bs\<rparr>))
             else Exited (s, w\<lparr>polls := bs\<rparr>))"

text \<open>
  The main loop of \<open>run\<close>, at most \<open>fuel\<close> iterations of it. The text-entry loop of
  \<open>get_participant_info\<close> is not modelled; the identifier it returns is the argument
  \<open>pid\<close> of \<open>run\<close>.
\<close>

definition run_step :: "cct \<Rightarrow> cct outcome" where
  "run_step sw =
     (case state (fst sw) of
        Welcome \<Rightarrow> show_welcome sw
      | Fixation \<Rightarrow> show_fixation sw
      | Trial \<Rightarrow> run_trial sw
      | Break \<Rightarrow> show_break sw
      | End \<Rightarrow> show_end sw)"

fun run_loop :: "nat \<Rightarrow> cct \<Rightarrow> cct outcome" where
  "run_loop 0 sw = OutOfFuel sw"
| "run_loop (Suc fuel) sw =
     (case run_step sw of
        Returned sw' \<Rightarrow> run_loop fuel sw'
      | other \<Rightarrow> other)"

definition run :: "string \<Rightarrow> nat \<Rightarrow> cct_files world \<Rightarrow> cct outcome" where
  "run pid fuel w =
     (case setup_experiment (Experiment\<lparr>participant_id := pid\<rparr>, w) of
        Returned sw \<Rightarrow> run_loop fuel sw
      | other \<Rightarrow> other)"

section \<open>Iowa Gambling Task (tarefa4)\<close>

subsection \<open>Configuration constants\<close>

text \<open>
  The number of trials and the number of blocks are arguments (\<open>nt\<close>, \<open>nb\<close>) of the
  functions that read them: the source declares them as settings the evaluator may
  change. The program as shipped runs at \<open>NUM_TENTATIVAS\<close> and \<open>NUM_BLOCOS\<close>.
\<close>

text \<open>The default identifier, the UTF-8 bytes of the source's string.\<close>

definition PARTICIPANTE_ID :: string where
  "PARTICIPANTE_ID = ''an'' @ [CHR 0xC3, CHR 0xB4] @ ''nimo''"

definition NUM_TENTATIVAS :: nat where "NUM_TENTATIVAS = 100"
definition NUM_BLOCOS :: nat where "NUM_BLOCOS = 5"
definition DINHEIRO_INICIAL :: int where "DINHEIRO_INICIAL = 2000"
definition LARGURA_TELA :: int where "LARGURA_TELA = 1024"
definition ALTURA_TELA :: int where "ALTURA_TELA = 768"
definition DURACAO_FEEDBACK :: rat where "DURACAO_FEEDBACK = 3 / 2"

datatype deck = Deck_A | Deck_B | Deck_C | Deck_D

record deck_props =
  recompensa :: int
  freq_perda :: rat
  valores_perda :: "int list"

definition BARALHO_A :: deck_props where
  "BARALHO_A = \<lparr> recompensa = 100, freq_perda = 1 / 2, valores_perda = [150, 200, 250, 300, 350] \<rparr>"

definition BARALHO_B :: deck_props where
  "BARALHO_B = \<lparr> recompensa = 100, freq_perda = 1 / 10, valores_perda = [1250] \<rparr>"

definition BARALHO_C :: deck_props where
  "BARALHO_C = \<lparr> recompensa = 50, freq_perda = 1 / 2, valores_perda = [25, 50, 75] \<rparr>"

definition BARALHO_D :: deck_props where
  "BARALHO_D = \<lparr> recompensa = 50, freq_perda = 1 / 10, valores_perda = [250] \<rparr>"

fun baralhos :: "deck \<Rightarrow> deck_props" where
  "baralhos Deck_A = BARALHO_A"
| "baralhos Deck_B = BARALHO_B"
| "baralhos Deck_C = BARALHO_C"
| "baralhos Deck_D = BARALHO_D"

subsection \<open>State of the task\<close>

datatype estado_igt = Instrucoes | Principal | Feedback | Resultados

record rect =
  rect_left :: int
  rect_top :: int
  rect_width :: int
  rect_height :: int

definition Rect :: "int \<Rightarrow> int \<Rightarrow> int \<Rightarrow> int \<Rightarrow> rect" where
  "Rect x y w h = \<lparr> rect_left = x, rect_top = y, rect_width = w, rect_height = h \<rparr>"

definition collidepoint :: "rect \<Rightarrow> int \<times> int \<Rightarrow> bool" where
  "collidepoint r p =
     (rect_left r \<le> fst p \<and> fst p < rect_left r + rect_width r \<and>
      rect_top r \<le> snd p \<and> snd p < rect_top r + rect_height r)"

record dado =
  d_tentativa :: nat
  d_baralho :: deck
  d_recompensa :: int
  d_perda :: int
  d_liquido :: int
  d_dinheiro_total :: int
  d_tempo_reacao :: rat

record igt =
  participante_id :: string
  dinheiro :: int
  tentativa_atual :: nat
  dados :: "dado list"
  tempo_inicio :: rat
  tempo_reacao :: rat
  posicoes_baralhos :: "deck list"
  retangulos_baralhos :: "(deck \<times> rect) list"
  resultados_baralhos :: "deck \<Rightarrow> (int \<times> int \<times> int) list"
  estado :: estado_igt
  feedback_dados :: "(deck \<times> int \<times> int \<times> int) option"
  tempo_inicio_feedback :: rat
  executando :: bool
  botao_continuar :: "rect option"

record resultados =
  escolhas_baralho :: "deck \<Rightarrow> nat"
  pontuacao_liquida :: int
  pontuacoes_bloco :: "int list"

record igt_files =
  dados_csv :: "dado list option"
  resultados_json :: "resultados option"

type_synonym igt_sw = "igt \<times> igt_files world"

subsection \<open>Construction: deck rectangles and the outcome schedule\<close>

text \<open>\<open>random.shuffle\<close>: for \<open>i\<close> from the last index down to 1, swap with an index \<open>j \<le> i\<close>.\<close>

fun shuffle_loop :: "nat \<Rightarrow> 'a list \<Rightarrow> rng \<Rightarrow> 'a list \<times> rng" where
  "shuffle_loop 0 xs g = (xs, g)"
| "shuffle_loop (Suc k) xs g =
     (let i = Suc k;
          j = g 0 mod (i + 1)
      in shuffle_loop k (xs[i := xs ! j, j := xs ! i]) (advance g))"

definition random_shuffle :: "'a list \<Rightarrow> rng \<Rightarrow> 'a list \<times> rng" where
  "random_shuffle xs g = shuffle_loop (length xs - 1) xs g"

definition criar_retangulos_baralhos :: "deck list \<Rightarrow> (deck \<times> rect) list" where
  "criar_retangulos_baralhos posicoes =
     (let largura_baralho = 160;
          altura_baralho = 240;
          margem = 40;
          largura_total = (largura_baralho * 4) + (margem * 3);
          inicio_x = (LARGURA_TELA - largura_total) div 2;
          y = (ALTURA_TELA - altura_baralho) div 2
      in map (\<lambda>(i, baralho).
                (baralho, Rect (inicio_x + int i * (largura_baralho + margem)) y
                               largura_baralho altura_baralho))
             (enumerate 0 posicoes))"

text \<open>The inner loop \<open>for _ in range(NUM_TENTATIVAS)\<close> for one deck.\<close>

fun gerar_resultados ::
  "deck_props \<Rightarrow> nat \<Rightarrow> rng \<Rightarrow> pyerror + ((int \<times> int \<times> int) list \<times> rng)" where
  "gerar_resultados propriedades 0 g = Inr ([], g)"
| "gerar_resultados propriedades (Suc n) g =
     (let (r, g1) = random_random g
      in case (if r < freq_perda propriedades
               then random_choice (valores_perda propriedades) g1
               else Inr (0, g1)) of
           Inl e \<Rightarrow> Inl e
         | Inr (perda, g2) \<Rightarrow>
             (case gerar_resultados propriedades n g2 of
                Inl e \<Rightarrow> Inl e
              | Inr (rest, g3) \<Rightarrow>
                  (let liquido = recompensa propriedades - perda
                   in Inr ((recompensa propriedades, perda, liquido) # rest, g3))))"

text \<open>The outer loop over \<open>self.baralhos.items()\<close>, in the order A, B, C, D.\<close>

definition gerar_resultados_baralhos ::
  "nat \<Rightarrow> rng \<Rightarrow> pyerror + ((deck \<Rightarrow> (int \<times> int \<times> int) list) \<times> rng)" where
  "gerar_resultados_baralhos nt g =
     (case gerar_resultados (baralhos Deck_A) nt g of
        Inl e \<Rightarrow> Inl e
      | Inr (ra, ga) \<Rightarrow>
     (case gerar_resultados (baralhos Deck_B) nt ga of
        Inl e \<Rightarrow> Inl e
      | Inr (rb, gb) \<Rightarrow>
     (case gerar_resultados (baralhos Deck_C) nt gb of
        Inl e \<Rightarrow> Inl e
      | Inr (rc, gc) \<Rightarrow>
     (case gerar_resultados (baralhos Deck_D) nt gc of
        Inl e \<Rightarrow> Inl e
      | Inr (rd, gd) \<Rightarrow>
          Inr (\<lambda>b. case b of Deck_A \<Rightarrow> ra | Deck_B \<Rightarrow> rb | Deck_C \<Rightarrow> rc | Deck_D \<Rightarrow> rd, gd)))))"

definition IowaGamblingTask ::
  "nat \<Rightarrow> string \<Rightarrow> bool \<Rightarrow> igt_files world \<Rightarrow> pyerror + igt_sw" where
  "IowaGamblingTask nt pid embaralhar_baralhos w =
     (let (posicoes, g1) =
            (if embaralhar_baralhos
             then random_shuffle [Deck_A, Deck_B, Deck_C, Deck_D] (rnd w)
             else ([Deck_A, Deck_B, Deck_C, Deck_D], rnd w))
      in case gerar_resultados_baralhos nt g1 of
           Inl e \<Rightarrow> Inl e
         | Inr (res, g2) \<Rightarrow>
             Inr (\<lparr> participante_id = (if pid = [] then PARTICIPANTE_ID else pid),
                    dinheiro = DINHEIRO_INICIAL,
                    tentativa_atual = 0,
                    dados = [],
                    tempo_inicio = 0,
                    tempo_reacao = 0,
                    posicoes_baralhos = posicoes,
                    retangulos_baralhos = criar_retangulos_baralhos posicoes,
                    resultados_baralhos = res,
                    estado = Instrucoes,
                    feedback_dados = None,
                    tempo_inicio_feedback = 0,
                    executando = True,
                    botao_continuar = None \<rparr>,
                  w\<lparr>rnd := g2\<rparr>))"

subsection \<open>Aggregation\<close>

definition pontos :: "deck \<Rightarrow> int" where
  "pontos baralho =
     (if baralho \<in> {Deck_C, Deck_D} then 1 else if baralho \<in> {Deck_A, Deck_B} then - 1 else 0)"

text \<open>The loop \<open>for i, dado in enumerate(self.dados)\<close> over the block scores.\<close>

fun pontuacoes_loop ::
  "nat \<Rightarrow> nat \<Rightarrow> nat \<Rightarrow> nat \<Rightarrow> dado list \<Rightarrow> int list \<Rightarrow> pyerror + int list" where
  "pontuacoes_loop nt nb tentativas_por_bloco i [] pb = Inr pb"
| "pontuacoes_loop nt nb tentativas_por_bloco i (dado # rest) pb =
     (if i < nt then
        (if tentativas_por_bloco = 0 then Inl ZeroDivisionError
         else
           (let bloco = i div tentativas_por_bloco
            in if bloco < nb
               then pontuacoes_loop nt nb tentativas_por_bloco (Suc i) rest
                      (pb[bloco := pb ! bloco + pontos (d_baralho dado)])
               else pontuacoes_loop nt nb tentativas_por_bloco (Suc i) rest pb))
      else pontuacoes_loop nt nb tentativas_por_bloco (Suc i) rest pb)"

text \<open>The counting loop over \<open>escolhas_baralho\<close>.\<close>

fun contar_escolhas :: "dado list \<Rightarrow> (deck \<Rightarrow> nat) \<Rightarrow> (deck \<Rightarrow> nat)" where
  "contar_escolhas [] escolhas = escolhas"
| "contar_escolhas (dado # rest) escolhas =
     contar_escolhas rest (escolhas(d_baralho dado := escolhas (d_baralho dado) + 1))"

definition calcular_resultados :: "nat \<Rightarrow> nat \<Rightarrow> dado list \<Rightarrow> pyerror + resultados" where
  "calcular_resultados nt nb ds =
     (let escolhas = contar_escolhas ds (\<lambda>b. 0);
          vantajosos = escolhas Deck_C + escolhas Deck_D;
          desvantajosos = escolhas Deck_A + escolhas Deck_B
      in if nb = 0 then Inl ZeroDivisionError
         else
           (case pontuacoes_loop nt nb (nt div nb) 0 ds (replicate nb 0) of
              Inl e \<Rightarrow> Inl e
            | Inr pb \<Rightarrow>
                Inr \<lparr> escolhas_baralho = escolhas,
                      pontuacao_liquida = int vantajosos - int desvantajosos,
                      pontuacoes_bloco = pb \<rparr>))"

subsection \<open>Frames of the main loop\<close>

definition desenhar_tela_instrucoes :: "igt_sw \<Rightarrow> igt_sw" where
  "desenhar_tela_instrucoes sw =
     (let (s, w) = sw;
          botao_largura = 200;
          botao_altura = 60;
          botao_x = (LARGURA_TELA - botao_largura) div 2;
          botao_y = ALTURA_TELA - 120
      in (s\<lparr>botao_continuar := Some (Rect botao_x botao_y botao_largura botao_altura)\<rparr>, w))"

fun processar_eventos_instrucoes :: "event list \<Rightarrow> igt \<Rightarrow> igt" where
  "processar_eventos_instrucoes [] s = s"
| "processar_eventos_instrucoes (QUIT # es) s =
     processar_eventos_instrucoes es (s\<lparr>executando := False\<rparr>)"
| "processar_eventos_instrucoes (KEYDOWN k # es) s =
     processar_eventos_instrucoes es
       (if k = K_ESCAPE then s\<lparr>executando := False\<rparr>
        else if k = K_SPACE \<or> k = K_RETURN then s\<lparr>estado := Principal\<rparr>
        else s)"
| "processar_eventos_instrucoes (MOUSEBUTTONDOWN button pos # es) s =
     processar_eventos_instrucoes es
       (case botao_continuar s of
          None \<Rightarrow> s
        | Some r \<Rightarrow> if collidepoint r pos then s\<lparr>estado := Principal\<rparr> else s)"
| "processar_eventos_instrucoes (OTHER_EVENT # es) s = processar_eventos_instrucoes es s"

definition desenhar_tela_principal :: "igt_sw \<Rightarrow> igt_sw" where
  "desenhar_tela_principal sw =
     (let (s, w) = sw
      in if tentativa_atual s = 0 \<and> tempo_inicio s = 0
         then (let (t, w') = time_time w in (s\<lparr>tempo_inicio := t\<rparr>, w'))
         else (s, w))"

definition processar_escolha :: "nat \<Rightarrow> deck \<Rightarrow> igt_sw \<Rightarrow> pyerror + igt_sw" where
  "processar_escolha nt baralho sw =
     (let (s, w) = sw;
          (tempo_atual, w1) = time_time w;
          s1 = s\<lparr>tempo_reacao := tempo_atual - tempo_inicio s, tempo_inicio := tempo_atual\<rparr>
      in if length (resultados_baralhos s1 baralho) \<le> tentativa_atual s1 then Inl IndexError
         else
           (let (recompensa, perda, liquido) = resultados_baralhos s1 baralho ! tentativa_atual s1;
                s2 = s1\<lparr>dinheiro := dinheiro s1 + liquido\<rparr>;
                dados_tentativa =
                  \<lparr> d_tentativa = tentativa_atual s2 + 1,
                    d_baralho = baralho,
                    d_recompensa = recompensa,
                    d_perda = perda,
                    d_liquido = liquido,
                    d_dinheiro_total = dinheiro s2,
                    d_tempo_reacao = round3 (tempo_reacao s2) \<rparr>;
                s3 = s2\<lparr>dados := dados s2 @ [dados_tentativa]\<rparr>;
                (t, w2) = time_time w1;
                s4 = s3\<lparr>feedback_dados := Some (baralho, recompensa, perda, liquido),
                        tempo_inicio_feedback := t,
                        estado := Feedback\<rparr>;
                s5 = s4\<lparr>tentativa_atual := tentativa_atual s4 + 1\<rparr>
            in if nt \<le> tentativa_atual s5 then Inr (s5\<lparr>estado := Resultados\<rparr>, w2)
               else Inr (s5, w2)))"

text \<open>The first deck rectangle that contains the pointer, in the order of the dictionary.\<close>

fun baralho_clicado :: "(deck \<times> rect) list \<Rightarrow> int \<times> int \<Rightarrow> deck option" where
  "baralho_clicado [] mouse_pos = None"
| "baralho_clicado ((baralho, retangulo) # rest) mouse_pos =
     (if collidepoint retangulo mouse_pos then Some baralho else baralho_clicado rest mouse_pos)"

fun processar_eventos_principal ::
  "nat \<Rightarrow> event list \<Rightarrow> int \<times> int \<Rightarrow> igt_sw \<Rightarrow> pyerror + igt_sw" where
  "processar_eventos_principal nt [] mouse_pos sw = Inr sw"
| "processar_eventos_principal nt (QUIT # es) mouse_pos (s, w) =
     processar_eventos_principal nt es mouse_pos (s\<lparr>executando := False\<rparr>, w)"
| "processar_eventos_principal nt (KEYDOWN k # es) mouse_pos (s, w) =
     processar_eventos_principal nt es mouse_pos
       (if k = K_ESCAPE then s\<lparr>executando := False\<rparr> else s, w)"
| "processar_eventos_principal nt (MOUSEBUTTONDOWN button pos # es) mouse_pos (s, w) =
     (case baralho_clicado (retangulos_baralhos s) mouse_pos of
        None \<Rightarrow> processar_eventos_principal nt es mouse_pos (s, w)
      | Some baralho \<Rightarrow>
          (case processar_escolha nt baralho (s, w) of
             Inl e \<Rightarrow> Inl e
           | Inr sw' \<Rightarrow> processar_eventos_principal nt es mouse_pos sw'))"
| "processar_eventos_principal nt (OTHER_EVENT # es) mouse_pos sw =
     processar_eventos_principal nt es mouse_pos sw"

definition desenhar_feedback :: "igt_sw \<Rightarrow> igt_sw" where
  "desenhar_feedback sw =
     (let (s, w) = sw
      in case feedback_dados s of
           None \<Rightarrow> sw
         | Some fd \<Rightarrow>
             (let (tempo_atual, w') = time_time w
              in if DURACAO_FEEDBACK \<le> tempo_atual - tempo_inicio_feedback s
                 then (s\<lparr>estado := Principal, feedback_dados := None\<rparr>, w')
                 else (s, w')))"

definition desenhar_resultados :: "nat \<Rightarrow> nat \<Rightarrow> igt_sw \<Rightarrow> pyerror + igt_sw" where
  "desenhar_resultados nt nb sw =
     (let (s, w) = sw
      in case calcular_resultados nt nb (dados s) of
           Inl e \<Rightarrow> Inl e
         | Inr res \<Rightarrow>
             (let botao_largura = 200;
                  botao_altura = 60;
                  botao_x = (LARGURA_TELA - botao_largura) div 2;
                  botao_y = ALTURA_TELA - 100
              in Inr (s\<lparr>botao_continuar := Some (Rect botao_x botao_y botao_largura botao_altura)\<rparr>,
                      w)))"

fun processar_eventos_resultados :: "event list \<Rightarrow> igt \<Rightarrow> igt" where
  "processar_eventos_resultados [] s = s"
| "processar_eventos_resultados (QUIT # es) s =
     processar_eventos_resultados es (s\<lparr>executando := False\<rparr>)"
| "processar_eventos_resultados (KEYDOWN k # es) s =
     processar_eventos_resultados es
       (if k = K_ESCAPE \<or> k = K_SPACE then s\<lparr>executando := False\<rparr> else s)"
| "processar_eventos_resultados (MOUSEBUTTONDOWN button pos # es) s =
     processar_eventos_resultados es
       (case botao_continuar s of
          None \<Rightarrow> s
        | Some r \<Rightarrow> if collidepoint r pos then s\<lparr>executando := False\<rparr> else s)"
| "processar_eventos_resultados (OTHER_EVENT # es) s = processar_eventos_resultados es s"

text \<open>One iteration of the \<open>while self.executando\<close> loop of \<open>executar\<close>.\<close>

definition executar_frame :: "nat \<Rightarrow> nat \<Rightarrow> igt_sw \<Rightarrow> pyerror + igt_sw" where
  "executar_frame nt nb sw =
     (case estado (fst sw) of
        Instrucoes \<Rightarrow>
          (let (s, w) = desenhar_tela_instrucoes sw;
               (b, w') = event_get w
           in Inr (processar_eventos_instrucoes (fst b) s, w'))
      | Principal \<Rightarrow>
          (let (s, w) = desenhar_tela_principal sw;
               (b, w') = event_get w
           in processar_eventos_principal nt (fst b) (snd b) (s, w'))
      | Feedback \<Rightarrow> Inr (desenhar_feedback sw)
      | Resultados \<Rightarrow>
          (case desenhar_resultados nt nb sw of
             Inl e \<Rightarrow> Inl e
           | Inr (s, w) \<Rightarrow>
               (let (b, w') = event_get w
                in Inr (processar_eventos_resultados (fst b) s, w'))))"

text \<open>
  \<open>_salvar_dados\<close>: the CSV file with the raw records is written first, then the results
  are computed and written as JSON.
\<close>

definition salvar_dados :: "nat \<Rightarrow> nat \<Rightarrow> igt_sw \<Rightarrow> igt_sw outcome" where
  "salvar_dados nt nb sw =
     (let (s, w) = sw;
          w1 = w\<lparr>files := (files w)\<lparr>dados_csv := Some (dados s)\<rparr>\<rparr>
      in case calcular_resultados nt nb (dados s) of
           Inl e \<Rightarrow> Raised e (s, w1)
         | Inr res \<Rightarrow> Returned (s, w1\<lparr>files := (files w1)\<lparr>resultados_json := Some res\<rparr>\<rparr>))"

text \<open>
  \<open>executar\<close>: the loop, at most \<open>fuel\<close> iterations of it, then the exit path. The
  value returned by the source, \<open>len(self.dados) == NUM_TENTATIVAS\<close>, is read off the
  final state.
\<close>

fun executar :: "nat \<Rightarrow> nat \<Rightarrow> nat \<Rightarrow> igt_sw \<Rightarrow> igt_sw outcome" where
  "executar nt nb fuel (s, w) =
     (if executando s then
        (case fuel of
           0 \<Rightarrow> OutOfFuel (s, w)
         | Suc fuel' \<Rightarrow>
             (case executar_frame nt nb (s, w) of
                Inl e \<Rightarrow> Raised e (s, w)
              | Inr sw' \<Rightarrow> executar nt nb fuel' sw'))
      else if 0 < length (dados s) then salvar_dados nt nb (s, w)
      else Returned (s, w))"

section \<open>Specification-side functions and example sessions\<close>

text \<open>
  The score of block \<open>b\<close> as the specification words it: the sum, over the trials \<open>i\<close>
  of the log (counted from \<open>k\<close>) that lie before the planned trial count and fall into
  block \<open>i div tpb\<close>, of the points of the deck picked.
\<close>

definition bloco_sum :: "nat \<Rightarrow> nat \<Rightarrow> nat \<Rightarrow> nat \<Rightarrow> dado list \<Rightarrow> int" where
  "bloco_sum nt tpb b k ds =
     (\<Sum>i\<leftarrow>[0..<length ds]. if k + i < nt \<and> (k + i) div tpb = b then pontos (d_baralho (ds ! i)) else 0)"

text \<open>A log of picks, for examples of the aggregation.\<close>

definition picks :: "deck list \<Rightarrow> dado list" where
  "picks bs = map (\<lambda>b. \<lparr> d_tentativa = 0, d_baralho = b, d_recompensa = 0, d_perda = 0,
       d_liquido = 0, d_dinheiro_total = 0, d_tempo_reacao = 0 \<rparr>) bs"

text \<open>
  Example worlds: a script of event batches, a clock that advances two seconds per
  reading from 10, nothing persisted yet, and a tape of draws (all zero for the CCT,
  \<open>0, 1, 2, ...\<close> for the IGT).
\<close>

definition cct_world :: "poll list \<Rightarrow> cct_files world" where
  "cct_world ps =
     \<lparr> rnd = (\<lambda>i. 0), clk = (\<lambda>i. 10 + 2 * of_nat i), polls = ps,
       files = \<lparr> csv_file = None, txt_file = None \<rparr> \<rparr>"

definition igt_world :: "poll list \<Rightarrow> igt_files world" where
  "igt_world ps =
     \<lparr> rnd = (\<lambda>i. i), clk = (\<lambda>i. 10 + 2 * of_nat i), polls = ps,
       files = \<lparr> dados_csv = None, resultados_json = None \<rparr> \<rparr>"

definition igt_start :: "nat \<Rightarrow> poll list \<Rightarrow> igt_sw" where
  "igt_start nt ps = projr (IowaGamblingTask nt ''p1'' False (igt_world ps))"

text \<open>
  An IGT session of three planned trials in one block: continue, two picks of the first
  deck, then the window is closed. \<open>igt_after k\<close> is where it stands after \<open>k\<close>
  iterations of the main loop.
\<close>

definition igt_polls :: "poll list" where
  "igt_polls =
     [([KEYDOWN K_SPACE], (0, 0)),
      ([MOUSEBUTTONDOWN 1 (200, 300)], (200, 300)),
      ([MOUSEBUTTONDOWN 1 (200, 300)], (200, 300)),
      ([QUIT], (200, 300))]"

definition igt_after :: "nat \<Rightarrow> igt_sw" where
  "igt_after k = final (executar 3 1 k (igt_start 3 igt_polls))"

text \<open>
  A CCT session: continue, a left click on the target of the first trial, then the
  event \<open>ev\<close> during the second trial, then the space bar. \<open>cct_after ev k\<close> is where
  it stands after \<open>k\<close> iterations of the main loop.
\<close>

definition cct_polls :: "event \<Rightarrow> poll list" where
  "cct_polls ev =
     [([KEYDOWN K_SPACE], (0, 0)),
      ([MOUSEBUTTONDOWN 1 (200, 100)], (200, 100)),
      ([ev], (0, 0)),
      ([KEYDOWN K_SPACE], (0, 0))]"

definition cct_after :: "event \<Rightarrow> nat \<Rightarrow> cct" where
  "cct_after ev k = final (run ''p1'' k (cct_world (cct_polls ev)))"

text \<open>
  The configuration that the generator returns on the all-zero tape: the target in cell
  (0, 0), centred at pixel (200, 100).
\<close>

definition cfg0 :: configuration where
  "cfg0 = \<lparr> config_id = - 1, is_repeated = False,
     stimuli = Stimulus 6 (CHR ''T'') (0, 0) 0 #
       map (\<lambda>p. Stimulus 6 (CHR ''L'') p 0)
         [(5, 5), (5, 4), (5, 3), (5, 2), (5, 1), (5, 0), (4, 5), (4, 4), (4, 3), (4, 2), (4, 1)],
     target = Stimulus 6 (CHR ''T'') (0, 0) 0 \<rparr>"

section \<open>Verification: configurations of the CCT\<close>

lemma pool_step:
  assumes "distinct pool" "j < length pool"
  shows "distinct (butlast (pool[j := last pool])) \<and>
         set (butlast (pool[j := last pool])) = set pool - {pool ! j} \<and>
         length (butlast (pool[j := last pool])) = length pool - 1"
proof -
  from assms(2) have "pool \<noteq> []" by auto
  then obtain ys z where p: "pool = ys @ [z]" by (cases pool rule: rev_cases) auto
  have dz: "distinct ys" "z \<notin> set ys" using assms(1) p by auto
  show ?thesis
  proof (cases "j < length ys")
    case True
    have b: "butlast (pool[j := last pool]) = ys[j := z]"
      using True p by (simp add: list_update_append)
    have s: "set (ys[j := z]) = insert z (set ys - {ys ! j})"
      using dz True by (simp add: set_update_distinct)
    have n: "pool ! j = ys ! j" using True p by (simp add: nth_append)
    have m: "ys ! j \<in> set ys" using True by simp
    have d: "distinct (ys[j := z])" using dz True by (simp add: distinct_list_update)
    have sp: "set pool = insert z (set ys)" using p by simp
    have zn: "z \<noteq> ys ! j" using m dz by auto
    show ?thesis unfolding b n using s d sp zn p by auto
  next
    case False
    then have j: "j = length ys" using assms(2) p by simp
    have b: "butlast (pool[j := last pool]) = ys" using p j by simp
    have n: "pool ! j = z" using p j by simp
    show ?thesis unfolding b n using dz p by auto
  qed
qed

lemma sample_pool_props:
  "distinct pool \<Longrightarrow> k \<le> length pool \<Longrightarrow>
   length (fst (sample_pool pool k g)) = k \<and> distinct (fst (sample_pool pool k g)) \<and>
   set (fst (sample_pool pool k g)) \<subseteq> set pool"
proof (induction k arbitrary: pool g)
  case 0
  then show ?case by simp
next
  case (Suc k)
  define j where "j = g 0 mod length pool"
  have "0 < length pool" using Suc.prems(2) by (cases pool) simp_all
  then have jl: "j < length pool" by (simp add: j_def)
  define pool' where "pool' = butlast (pool[j := last pool])"
  note ps = pool_step[OF Suc.prems(1) jl, folded pool'_def]
  have "k \<le> length pool'" using ps Suc.prems by simp
  from Suc.IH[OF _ this, of "advance g"] ps
  have ih: "length (fst (sample_pool pool' k (advance g))) = k"
    "distinct (fst (sample_pool pool' k (advance g)))"
    "set (fst (sample_pool pool' k (advance g))) \<subseteq> set pool - {pool ! j}" by auto
  have eq: "fst (sample_pool pool (Suc k) g) = pool ! j # fst (sample_pool pool' k (advance g))"
    by (simp add: j_def pool'_def Let_def split: prod.splits)
  show ?case using ih jl unfolding eq by auto
qed

lemma random_choice_rotations:
  "random_choice rotations g = Inr (rotations ! (g 0 mod 4), advance g)"
  by (simp add: random_choice_def rotations_def)

lemma rotations_nth: "rotations ! (k mod 4) \<in> {0, 90, 180, 270}"
proof -
  have "k mod 4 < 4" by simp
  then have "k mod 4 = 0 \<or> k mod 4 = 1 \<or> k mod 4 = 2 \<or> k mod 4 = 3" by linarith
  then show ?thesis by (auto simp: rotations_def)
qed

lemma distractors_ok:
  "\<exists>ds g'. distractors gs ps g = Inr (ds, g') \<and> map position ds = ps \<and>
      (\<forall>d \<in> set ds. stim_type d = CHR ''L'' \<and> rotation d \<in> {0, 90, 180, 270} \<and>
          d = Stimulus gs (stim_type d) (position d) (rotation d))"
proof (induction ps arbitrary: g)
  case Nil
  then show ?case by simp
next
  case (Cons p ps)
  obtain ds g' where ih: "distractors gs ps (advance g) = Inr (ds, g')" "map position ds = ps"
    "\<forall>d \<in> set ds. stim_type d = CHR ''L'' \<and> rotation d \<in> {0, 90, 180, 270} \<and>
          d = Stimulus gs (stim_type d) (position d) (rotation d)"
    using Cons.IH[of "advance g"] by blast
  have "distractors gs (p # ps) g = Inr (Stimulus gs (CHR ''L'') p (rotations ! (g 0 mod 4)) # ds, g')"
    using ih(1) by (simp add: random_choice_rotations)
  moreover have "position (Stimulus gs (CHR ''L'') p r) = p" "stim_type (Stimulus gs (CHR ''L'') p r) = CHR ''L''"
     "rotation (Stimulus gs (CHR ''L'') p r) = r" for r
    by (simp_all add: Stimulus_def)
  ultimately show ?case using ih(2,3) rotations_nth[of "g 0"] by auto
qed

lemma distinct_grid_positions: "distinct (grid_positions gs)"
  by (simp add: grid_positions_def distinct_product)

lemma length_grid_positions: "length (grid_positions gs) = gs ^ 2"
  by (simp add: grid_positions_def power2_eq_square)

lemma set_grid_positions: "set (grid_positions gs) = {0..<gs} \<times> {0..<gs}"
  by (simp add: grid_positions_def)

lemma generate_Inr:
  assumes "0 < n" "n \<le> gs ^ 2"
  shows "\<exists>tp others r ds g'. fst (sample_pool (grid_positions gs) n g) = tp # others \<and>
     distractors gs others (advance (snd (sample_pool (grid_positions gs) n g))) = Inr (ds, g') \<and>
     r \<in> {0, 90, 180, 270} \<and>
     generate gs n cid rep g =
       Inr (\<lparr> config_id = cid, is_repeated = rep,
              stimuli = Stimulus gs (CHR ''T'') tp r # ds,
              target = Stimulus gs (CHR ''T'') tp r \<rparr>, g')"
proof -
  obtain sel g1 where sp: "sample_pool (grid_positions gs) n g = (sel, g1)" by (cases "sample_pool (grid_positions gs) n g")
  have "length sel = n" using sample_pool_props[OF distinct_grid_positions, of n gs g] assms sp
    by (simp add: length_grid_positions)
  then obtain tp others where sel: "sel = tp # others" using assms(1) by (cases sel) auto
  obtain ds g' where d: "distractors gs others (advance g1) = Inr (ds, g')"
    using distractors_ok[of gs others "advance g1"] by blast
  have rs: "random_sample (grid_positions gs) n g = Inr (sel, g1)"
    using assms sp by (simp add: random_sample_def length_grid_positions)
  have "generate gs n cid rep g =
       Inr (\<lparr> config_id = cid, is_repeated = rep,
              stimuli = Stimulus gs (CHR ''T'') tp (rotations ! (g1 0 mod 4)) # ds,
              target = Stimulus gs (CHR ''T'') tp (rotations ! (g1 0 mod 4)) \<rparr>, g')"
    by (simp add: generate_def rs sel random_choice_rotations d Let_def)
  then show ?thesis using sp sel d rotations_nth[of "g1 0"] by auto
qed

lemma generate_Inr_range:
  assumes "generate gs n cid rep g = Inr x"
  shows "0 < n \<and> n \<le> gs ^ 2"
proof -
  have "\<not> gs ^ 2 < n"
    using assms by (auto simp: generate_def random_sample_def length_grid_positions)
  moreover have "n \<noteq> 0"
  proof
    assume "n = 0"
    then show False using assms by (simp add: generate_def random_sample_def)
  qed
  ultimately show ?thesis by simp
qed

lemma generate_props:
  assumes "0 < n" "n \<le> gs ^ 2"
  shows "\<exists>cfg g'. generate gs n cid rep g = Inr (cfg, g') \<and>
       length (stimuli cfg) = n \<and>
       distinct (map position (stimuli cfg)) \<and>
       set (map position (stimuli cfg)) \<subseteq> {0..<gs} \<times> {0..<gs} \<and>
       stimuli cfg = target cfg # tl (stimuli cfg) \<and>
       stim_type (target cfg) = CHR ''T'' \<and>
       (\<forall>d \<in> set (tl (stimuli cfg)). stim_type d = CHR ''L'') \<and>
       map position (stimuli cfg) = fst (sample_pool (grid_positions gs) n g) \<and>
       (\<forall>s \<in> set (stimuli cfg). rotation s \<in> {0, 90, 180, 270} \<and>
           s = Stimulus gs (stim_type s) (position s) (rotation s))"
proof -
  obtain tp others r ds g' where
    sel: "fst (sample_pool (grid_positions gs) n g) = tp # others" and
    d: "distractors gs others (advance (snd (sample_pool (grid_positions gs) n g))) = Inr (ds, g')" and
    r: "r \<in> {0, 90, 180, 270}" and
    gen: "generate gs n cid rep g =
       Inr (\<lparr> config_id = cid, is_repeated = rep,
              stimuli = Stimulus gs (CHR ''T'') tp r # ds,
              target = Stimulus gs (CHR ''T'') tp r \<rparr>, g')"
    using generate_Inr[OF assms, of g cid rep] by blast
  have dp: "map position ds = others"
    "\<forall>d \<in> set ds. stim_type d = CHR ''L'' \<and> rotation d \<in> {0, 90, 180, 270} \<and>
          d = Stimulus gs (stim_type d) (position d) (rotation d)"
    using distractors_ok[of gs others "advance (snd (sample_pool (grid_positions gs) n g))"] d by auto
  have sp: "length (tp # others) = n" "distinct (tp # others)"
     "set (tp # others) \<subseteq> {0..<gs} \<times> {0..<gs}"
    using sample_pool_props[OF distinct_grid_positions, of n gs g] assms sel
    by (simp_all add: length_grid_positions set_grid_positions)
  have t: "position (Stimulus gs (CHR ''T'') tp r) = tp" "stim_type (Stimulus gs (CHR ''T'') tp r) = CHR ''T''"
     "rotation (Stimulus gs (CHR ''T'') tp r) = r"
    by (simp_all add: Stimulus_def)
  have mp: "map position (Stimulus gs (CHR ''T'') tp r # ds) = tp # others"
    using dp(1) t(1) by simp
  have len: "length (Stimulus gs (CHR ''T'') tp r # ds) = n"
    using sp(1) dp(1) by (metis length_map mp)
  show ?thesis
    apply (rule exI[of _ "\<lparr> config_id = cid, is_repeated = rep,
              stimuli = Stimulus gs (CHR ''T'') tp r # ds,
              target = Stimulus gs (CHR ''T'') tp r \<rparr>"])
    apply (rule exI[of _ g'])
    apply (simp only: gen simp_thms configuration.simps mp len sel list.sel)
    using sp dp(2) t r by auto
qed

text \<open>
  Claim C1. For every tape of random draws: when the item count is positive and at most
  the number of grid cells, the generator returns a configuration with exactly that
  many stimuli on pairwise distinct cells of the grid, exactly one stimulus of type T,
  which is the first stimulus and sits on the first sampled cell, and every rotation
  among 0, 90, 180 and 270; when the item count exceeds the number of cells the generator
  raises ValueError. (With no item at all it raises IndexError.)
\<close>

theorem generate_configuration:
  "(gs ^ 2 < n \<longrightarrow> generate gs n cid rep g = Inl ValueError) \<and>
   (n = 0 \<longrightarrow> generate gs n cid rep g = Inl IndexError) \<and>
   (0 < n \<and> n \<le> gs ^ 2 \<longrightarrow>
      (\<exists>cfg g'. generate gs n cid rep g = Inr (cfg, g') \<and>
         length (stimuli cfg) = n \<and>
         distinct (map position (stimuli cfg)) \<and>
         card (position ` set (stimuli cfg)) = n \<and>
         position ` set (stimuli cfg) \<subseteq> {0..<gs} \<times> {0..<gs} \<and>
         length (filter (\<lambda>s. stim_type s = CHR ''T'') (stimuli cfg)) = 1 \<and>
         target cfg = hd (stimuli cfg) \<and>
         stim_type (target cfg) = CHR ''T'' \<and>
         position (target cfg) = hd (fst (sample_pool (grid_positions gs) n g)) \<and>
         (\<forall>s \<in> set (stimuli cfg). rotation s \<in> {0, 90, 180, 270})))"
proof (intro conjI impI)
  assume "gs ^ 2 < n"
  then show "generate gs n cid rep g = Inl ValueError"
    by (simp add: generate_def random_sample_def length_grid_positions)
next
  assume "n = 0"
  then show "generate gs n cid rep g = Inl IndexError"
    by (simp add: generate_def random_sample_def)
next
  assume a: "0 < n \<and> n \<le> gs ^ 2"
  then obtain cfg g' where g: "generate gs n cid rep g = Inr (cfg, g')"
    and len: "length (stimuli cfg) = n"
    and dis: "distinct (map position (stimuli cfg))"
    and sub: "set (map position (stimuli cfg)) \<subseteq> {0..<gs} \<times> {0..<gs}"
    and st: "stimuli cfg = target cfg # tl (stimuli cfg)"
    and tt: "stim_type (target cfg) = CHR ''T''"
    and dl: "\<forall>d \<in> set (tl (stimuli cfg)). stim_type d = CHR ''L''"
    and mp: "map position (stimuli cfg) = fst (sample_pool (grid_positions gs) n g)"
    and rot: "\<forall>s \<in> set (stimuli cfg). rotation s \<in> {0, 90, 180, 270} \<and>
           s = Stimulus gs (stim_type s) (position s) (rotation s)"
    using generate_props[of n gs cid rep g] by blast
  have card: "card (position ` set (stimuli cfg)) = n"
    using dis len distinct_card[of "map position (stimuli cfg)"] by simp
  have f0: "filter (\<lambda>s. stim_type s = CHR ''T'') (tl (stimuli cfg)) = []"
    using dl by (simp add: filter_empty_conv)
  have "filter (\<lambda>s. stim_type s = CHR ''T'') (stimuli cfg)
         = filter (\<lambda>s. stim_type s = CHR ''T'') (target cfg # tl (stimuli cfg))"
    using st by simp
  then have one: "length (filter (\<lambda>s. stim_type s = CHR ''T'') (stimuli cfg)) = 1"
    using tt f0 by simp
  have hd1: "target cfg = hd (stimuli cfg)" using st by (metis list.sel(1))
  have "position (hd (stimuli cfg)) = hd (map position (stimuli cfg))"
    using st by (metis list.sel(1) list.simps(9))
  then have hd2: "position (target cfg) = hd (fst (sample_pool (grid_positions gs) n g))"
    using hd1 mp by simp
  show "\<exists>cfg g'. generate gs n cid rep g = Inr (cfg, g') \<and>
         length (stimuli cfg) = n \<and>
         distinct (map position (stimuli cfg)) \<and>
         card (position ` set (stimuli cfg)) = n \<and>
         position ` set (stimuli cfg) \<subseteq> {0..<gs} \<times> {0..<gs} \<and>
         length (filter (\<lambda>s. stim_type s = CHR ''T'') (stimuli cfg)) = 1 \<and>
         target cfg = hd (stimuli cfg) \<and>
         stim_type (target cfg) = CHR ''T'' \<and>
         position (target cfg) = hd (fst (sample_pool (grid_positions gs) n g)) \<and>
         (\<forall>s \<in> set (stimuli cfg). rotation s \<in> {0, 90, 180, 270})"
    using g len dis card sub one hd1 tt hd2 rot by auto
qed

lemma sq_le_225: "(d::int) ^ 2 + e ^ 2 \<le> 15 ^ 2 \<Longrightarrow> \<bar>d\<bar> \<le> 15"
proof -
  assume a: "d ^ 2 + e ^ 2 \<le> 15 ^ 2"
  have "0 \<le> e ^ 2" by simp
  then have "d ^ 2 \<le> 15 ^ 2" using a by linarith
  then have "\<bar>d\<bar> \<le> \<bar>15::int\<bar>" by (simp only: abs_le_square_iff)
  then show ?thesis by simp
qed

lemma contains_point_near:
  assumes "contains_point st (x, y)"
  shows "\<bar>x - fst (screen_pos st)\<bar> \<le> 15 \<and> \<bar>y - snd (screen_pos st)\<bar> \<le> 15"
proof -
  have a: "(x - fst (screen_pos st)) ^ 2 + (y - snd (screen_pos st)) ^ 2 \<le> 15 ^ 2"
    using assms by (simp add: contains_point_def STIM_SIZE_def split: prod.splits)
  then have b: "(y - snd (screen_pos st)) ^ 2 + (x - fst (screen_pos st)) ^ 2 \<le> 15 ^ 2"
    by (simp add: add.commute)
  show ?thesis using sq_le_225[OF a] sq_le_225[OF b] by simp
qed

lemma centers_apart:
  assumes "p \<noteq> q"
  shows "CELL_SIZE \<le> \<bar>fst (screen_pos (Stimulus gs a p r)) - fst (screen_pos (Stimulus gs b q r'))\<bar> \<or>
         CELL_SIZE \<le> \<bar>snd (screen_pos (Stimulus gs a p r)) - snd (screen_pos (Stimulus gs b q r'))\<bar>"
proof -
  have "fst p \<noteq> fst q \<or> snd p \<noteq> snd q" using assms by (auto simp: prod_eq_iff)
  then have "1 \<le> \<bar>int (fst p) - int (fst q)\<bar> \<or> 1 \<le> \<bar>int (snd p) - int (snd q)\<bar>" by linarith
  then show ?thesis by (simp add: Stimulus_def CELL_SIZE_def) linarith
qed

lemma stimuli_apart:
  assumes "generate gs n cid rep g = Inr (cfg, g')"
    and "i < length (stimuli cfg)" and "j < length (stimuli cfg)" and "i \<noteq> j"
  shows "(CELL_SIZE \<le> \<bar>fst (screen_pos (stimuli cfg ! i)) - fst (screen_pos (stimuli cfg ! j))\<bar> \<or>
          CELL_SIZE \<le> \<bar>snd (screen_pos (stimuli cfg ! i)) - snd (screen_pos (stimuli cfg ! j))\<bar>) \<and>
         \<not> (contains_point (stimuli cfg ! i) pt \<and> contains_point (stimuli cfg ! j) pt)"
proof -
  have n: "0 < n \<and> n \<le> gs ^ 2"
    using assms(1) by (rule generate_Inr_range)
  then obtain cfg0 g0 where g: "generate gs n cid rep g = Inr (cfg0, g0)"
    and dis: "distinct (map position (stimuli cfg0))"
    and wf: "\<forall>s \<in> set (stimuli cfg0). rotation s \<in> {0, 90, 180, 270} \<and>
           s = Stimulus gs (stim_type s) (position s) (rotation s)"
    using generate_props[of n gs cid rep g] by blast
  have c: "cfg0 = cfg" using g assms(1) by simp
  let ?a = "stimuli cfg ! i" and ?b = "stimuli cfg ! j"
  have pos: "position ?a \<noteq> position ?b"
    using dis assms(2-4) c by (simp add: distinct_conv_nth)
  have ea: "?a = Stimulus gs (stim_type ?a) (position ?a) (rotation ?a)"
    and eb: "?b = Stimulus gs (stim_type ?b) (position ?b) (rotation ?b)"
    using wf assms(2,3) c by auto
  have apart: "CELL_SIZE \<le> \<bar>fst (screen_pos ?a) - fst (screen_pos ?b)\<bar> \<or>
          CELL_SIZE \<le> \<bar>snd (screen_pos ?a) - snd (screen_pos ?b)\<bar>"
    using centers_apart[OF pos, of gs "stim_type ?a" "rotation ?a" "stim_type ?b" "rotation ?b"] ea eb
    by simp
  have "\<not> (contains_point ?a pt \<and> contains_point ?b pt)"
  proof
    assume h: "contains_point ?a pt \<and> contains_point ?b pt"
    obtain x y where pt: "pt = (x, y)" by (cases pt)
    from h contains_point_near[of ?a x y] contains_point_near[of ?b x y] pt
    have "\<bar>x - fst (screen_pos ?a)\<bar> \<le> 15" "\<bar>y - snd (screen_pos ?a)\<bar> \<le> 15"
         "\<bar>x - fst (screen_pos ?b)\<bar> \<le> 15" "\<bar>y - snd (screen_pos ?b)\<bar> \<le> 15" by auto
    then show False using apart by (simp add: CELL_SIZE_def) linarith
  qed
  then show ?thesis using apart by blast
qed


text \<open>
  Claim C10. In every generated configuration the centres of two different stimuli are at
  least CELL_SIZE apart along one axis, and no point lies in the hit regions of both.
\<close>

theorem hit_regions_disjoint:
  assumes "generate gs n cid rep g = Inr (cfg, g')"
    and "i < length (stimuli cfg)" and "j < length (stimuli cfg)" and "i \<noteq> j"
  shows "(CELL_SIZE \<le> \<bar>fst (screen_pos (stimuli cfg ! i)) - fst (screen_pos (stimuli cfg ! j))\<bar> \<or>
          CELL_SIZE \<le> \<bar>snd (screen_pos (stimuli cfg ! i)) - snd (screen_pos (stimuli cfg ! j))\<bar>) \<and>
         \<not> (contains_point (stimuli cfg ! i) pt \<and> contains_point (stimuli cfg ! j) pt)"
  using assms by (rule stimuli_apart)

theorem generate_configuration_witness:
  "generate 2 5 0 True (\<lambda>i. i) = Inl ValueError \<and>
   generate 2 0 0 True (\<lambda>i. i) = Inl IndexError \<and>
   (\<exists>cfg g'. generate 6 12 (- 1) False (\<lambda>i. 7 * i + 3) = Inr (cfg, g') \<and>
      length (stimuli cfg) = 12 \<and>
      distinct (map position (stimuli cfg)) \<and>
      card (position ` set (stimuli cfg)) = 12 \<and>
      position ` set (stimuli cfg) \<subseteq> {0..<6} \<times> {0..<6} \<and>
      length (filter (\<lambda>s. stim_type s = CHR ''T'') (stimuli cfg)) = 1 \<and>
      target cfg = hd (stimuli cfg) \<and>
      stim_type (target cfg) = CHR ''T'' \<and>
      position (target cfg) = hd (fst (sample_pool (grid_positions 6) 12 (\<lambda>i. 7 * i + 3))) \<and>
      (\<forall>s \<in> set (stimuli cfg). rotation s \<in> {0, 90, 180, 270}))"
  using generate_configuration [of 2 5 0 True "\<lambda>i. i"]
    generate_configuration [of 2 0 0 True "\<lambda>i. i"]
    generate_configuration [of 6 12 "- 1" False "\<lambda>i. 7 * i + 3"]
  by simp

section \<open>Verification: aggregation of the IGT\<close>

lemma contar_escolhas_count:
  "contar_escolhas ds e b = e b + length (filter (\<lambda>d. d_baralho d = b) ds)"
  by (induction ds arbitrary: e) auto

lemma bloco_sum_Nil: "bloco_sum nt tpb b k [] = 0"
  by (simp add: bloco_sum_def)

lemma bloco_sum_Cons:
  "bloco_sum nt tpb b k (d # ds) =
     (if k < nt \<and> k div tpb = b then pontos (d_baralho d) else 0) + bloco_sum nt tpb b (Suc k) ds"
proof -
  have "[0..<length (d # ds)] = 0 # map Suc [0..<length ds]"
    by (simp add: upt_conv_Cons map_Suc_upt del: upt_Suc)
  then show ?thesis
    by (simp add: bloco_sum_def comp_def del: upt_Suc cong: if_cong)
qed

lemma pontuacoes_loop_ok:
  assumes "0 < tpb"
  shows "\<exists>pb'. pontuacoes_loop nt nb tpb k ds pb = Inr pb' \<and> length pb' = length pb \<and>
           (\<forall>b < length pb. b < nb \<longrightarrow> pb' ! b = pb ! b + bloco_sum nt tpb b k ds) \<and>
           (\<forall>b < length pb. nb \<le> b \<longrightarrow> pb' ! b = pb ! b)"
proof (induction ds arbitrary: k pb)
  case Nil
  then show ?case by (simp add: bloco_sum_Nil)
next
  case (Cons d ds)
  show ?case
  proof (cases "k < nt \<and> k div tpb < nb")
    case True
    let ?pb1 = "pb[k div tpb := pb ! (k div tpb) + pontos (d_baralho d)]"
    obtain pb' where ih: "pontuacoes_loop nt nb tpb (Suc k) ds ?pb1 = Inr pb'" "length pb' = length ?pb1"
      "\<forall>b < length ?pb1. b < nb \<longrightarrow> pb' ! b = ?pb1 ! b + bloco_sum nt tpb b (Suc k) ds"
      "\<forall>b < length ?pb1. nb \<le> b \<longrightarrow> pb' ! b = ?pb1 ! b"
      using Cons.IH[of "Suc k" ?pb1] by blast
    have e: "pontuacoes_loop nt nb tpb k (d # ds) pb = Inr pb'"
      using True assms ih(1) by (simp add: Let_def)
    show ?thesis
      unfolding e using ih(2-4) True
      by (auto simp: bloco_sum_Cons nth_list_update)
  next
    case False
    obtain pb' where ih: "pontuacoes_loop nt nb tpb (Suc k) ds pb = Inr pb'" "length pb' = length pb"
      "\<forall>b < length pb. b < nb \<longrightarrow> pb' ! b = pb ! b + bloco_sum nt tpb b (Suc k) ds"
      "\<forall>b < length pb. nb \<le> b \<longrightarrow> pb' ! b = pb ! b"
      using Cons.IH[of "Suc k" pb] by blast
    have e: "pontuacoes_loop nt nb tpb k (d # ds) pb = Inr pb'"
      using False assms ih(1) by (auto simp: Let_def)
    show ?thesis
      unfolding e using ih(2-4) False
      by (auto simp: bloco_sum_Cons)
  qed
qed

lemma pontos_cases: "pontos b = (if b \<in> {Deck_C, Deck_D} then 1 else - 1)"
  by (cases b) (simp_all add: pontos_def)

lemma filter_or_length:
  "a \<noteq> b \<Longrightarrow> length (filter (\<lambda>d. f d = a \<or> f d = b) ds) =
     length (filter (\<lambda>d. f d = a) ds) + length (filter (\<lambda>d. f d = b) ds)"
  by (induction ds) auto

lemma sum_list_upt_cut:
  fixes f :: "nat \<Rightarrow> int"
  assumes "\<And>i. m \<le> i \<Longrightarrow> f i = 0"
  shows "sum_list (map f [0..<n]) = sum_list (map f [0..<min m n])"
proof -
  have "sum f {0..<n} = sum f {0..<min m n}"
    by (rule sum.mono_neutral_right) (auto simp: assms)
  then show ?thesis by (simp add: interv_sum_list_conv_sum_set_nat)
qed

lemma bloco_sum_take:
  assumes "0 < tpb" "b < nb"
  shows "bloco_sum nt tpb b 0 (take (tpb * nb) ds) = bloco_sum nt tpb b 0 ds"
proof -
  let ?f = "\<lambda>ds i. if i < nt \<and> i div tpb = b then pontos (d_baralho (ds ! i)) else 0"
  have z: "?f ds i = 0" if "tpb * nb \<le> i" for i
  proof -
    have "nb \<le> i div tpb" using that assms(1)
      by (metis div_le_mono nonzero_mult_div_cancel_left less_numeral_extra(3))
    then show ?thesis using assms(2) by auto
  qed
  have a: "sum_list (map (?f ds) [0..<length ds]) = sum_list (map (?f ds) [0..<min (tpb * nb) (length ds)])"
    by (rule sum_list_upt_cut) (rule z)
  have b: "map (?f (take (tpb * nb) ds)) [0..<min (tpb * nb) (length ds)]
         = map (?f ds) [0..<min (tpb * nb) (length ds)]"
    by (rule map_cong) auto
  have l: "length (take (tpb * nb) ds) = min (tpb * nb) (length ds)" by (simp add: min.commute)
  show ?thesis
    unfolding bloco_sum_def l add_0 by (simp only: a b)
qed

lemma block_size_pos: "0 < nb \<Longrightarrow> nb \<le> nt \<Longrightarrow> 0 < nt div (nb::nat)"
  by (simp add: div_greater_zero_iff)

lemma calcular_resultados_Inr:
  assumes "0 < nb" "nb \<le> nt"
  shows "\<exists>pb. calcular_resultados nt nb ds =
           Inr \<lparr> escolhas_baralho = contar_escolhas ds (\<lambda>b. 0),
                 pontuacao_liquida =
                   int (contar_escolhas ds (\<lambda>b. 0) Deck_C + contar_escolhas ds (\<lambda>b. 0) Deck_D) -
                   int (contar_escolhas ds (\<lambda>b. 0) Deck_A + contar_escolhas ds (\<lambda>b. 0) Deck_B),
                 pontuacoes_bloco = pb \<rparr> \<and>
           length pb = nb \<and> (\<forall>b < nb. pb ! b = bloco_sum nt (nt div nb) b 0 ds)"
proof -
  have t: "0 < nt div nb" using assms by (rule block_size_pos)
  obtain pb where pb: "pontuacoes_loop nt nb (nt div nb) 0 ds (replicate nb 0) = Inr pb"
    "length pb = length (replicate nb (0::int))"
    "\<forall>b < length (replicate nb (0::int)). b < nb \<longrightarrow>
        pb ! b = replicate nb 0 ! b + bloco_sum nt (nt div nb) b 0 ds"
    using pontuacoes_loop_ok[OF t, of nt nb 0 ds "replicate nb 0"] by blast
  have "calcular_resultados nt nb ds =
           Inr \<lparr> escolhas_baralho = contar_escolhas ds (\<lambda>b. 0),
                 pontuacao_liquida =
                   int (contar_escolhas ds (\<lambda>b. 0) Deck_C + contar_escolhas ds (\<lambda>b. 0) Deck_D) -
                   int (contar_escolhas ds (\<lambda>b. 0) Deck_A + contar_escolhas ds (\<lambda>b. 0) Deck_B),
                 pontuacoes_bloco = pb \<rparr>"
    using assms(1) pb(1) by (simp add: calcular_resultados_def Let_def)
  moreover have "length pb = nb" using pb(2) by simp
  moreover have "\<forall>b < nb. pb ! b = bloco_sum nt (nt div nb) b 0 ds" using pb(3) by simp
  ultimately show ?thesis by blast
qed

text \<open>
  Claim C3. With at least one trial per block (\<open>0 < nb \<le> nt\<close>), for every log: the
  results are computed without fault; the net score is the number of picks from decks C
  and D minus the number of picks from decks A and B; there is one score per block, and
  the score of block \<open>b\<close> is the sum over the trials \<open>i < nt\<close> with
  \<open>i div (nt div nb) = b\<close> of +1 for a pick from C or D and -1 for a pick from A or B;
  a trial at index \<open>(nt div nb) * nb\<close> or beyond belongs to no block, and the block
  scores are those of the log cut at that index.
\<close>

theorem calcular_resultados_scores:
  assumes "0 < nb" "nb \<le> nt"
  shows "\<exists>res. calcular_resultados nt nb ds = Inr res \<and>
      pontuacao_liquida res =
        int (length (filter (\<lambda>d. d_baralho d \<in> {Deck_C, Deck_D}) ds)) -
        int (length (filter (\<lambda>d. d_baralho d \<in> {Deck_A, Deck_B}) ds)) \<and>
      length (pontuacoes_bloco res) = nb \<and>
      (\<forall>b < nb. pontuacoes_bloco res ! b =
         (\<Sum>i\<leftarrow>[0..<length ds].
            if i < nt \<and> i div (nt div nb) = b
            then (if d_baralho (ds ! i) \<in> {Deck_C, Deck_D} then 1 else - 1) else 0)) \<and>
      (\<forall>i. (nt div nb) * nb \<le> i \<longrightarrow> (\<forall>b < nb. i div (nt div nb) \<noteq> b)) \<and>
      (\<exists>res'. calcular_resultados nt nb (take ((nt div nb) * nb) ds) = Inr res' \<and>
          pontuacoes_bloco res' = pontuacoes_bloco res)"
proof -
  have t: "0 < nt div nb" using assms by (rule block_size_pos)
  obtain pb where r: "calcular_resultados nt nb ds =
           Inr \<lparr> escolhas_baralho = contar_escolhas ds (\<lambda>b. 0),
                 pontuacao_liquida =
                   int (contar_escolhas ds (\<lambda>b. 0) Deck_C + contar_escolhas ds (\<lambda>b. 0) Deck_D) -
                   int (contar_escolhas ds (\<lambda>b. 0) Deck_A + contar_escolhas ds (\<lambda>b. 0) Deck_B),
                 pontuacoes_bloco = pb \<rparr>"
     and lpb: "length pb = nb" and pbs: "\<forall>b < nb. pb ! b = bloco_sum nt (nt div nb) b 0 ds"
    using calcular_resultados_Inr[OF assms, of ds] by blast
  let ?ds' = "take ((nt div nb) * nb) ds"
  obtain pb' where r': "calcular_resultados nt nb ?ds' =
           Inr \<lparr> escolhas_baralho = contar_escolhas ?ds' (\<lambda>b. 0),
                 pontuacao_liquida =
                   int (contar_escolhas ?ds' (\<lambda>b. 0) Deck_C + contar_escolhas ?ds' (\<lambda>b. 0) Deck_D) -
                   int (contar_escolhas ?ds' (\<lambda>b. 0) Deck_A + contar_escolhas ?ds' (\<lambda>b. 0) Deck_B),
                 pontuacoes_bloco = pb' \<rparr>"
     and lpb': "length pb' = nb" and pbs': "\<forall>b < nb. pb' ! b = bloco_sum nt (nt div nb) b 0 ?ds'"
    using calcular_resultados_Inr[OF assms, of ?ds'] by blast
  have eq: "pb' = pb"
    using lpb lpb' pbs pbs' bloco_sum_take[OF t, of _ nb nt ds]
    by (simp add: list_eq_iff_nth_eq)
  have net: "int (contar_escolhas ds (\<lambda>b. 0) Deck_C + contar_escolhas ds (\<lambda>b. 0) Deck_D) -
             int (contar_escolhas ds (\<lambda>b. 0) Deck_A + contar_escolhas ds (\<lambda>b. 0) Deck_B) =
        int (length (filter (\<lambda>d. d_baralho d \<in> {Deck_C, Deck_D}) ds)) -
        int (length (filter (\<lambda>d. d_baralho d \<in> {Deck_A, Deck_B}) ds))"
    by (simp add: contar_escolhas_count filter_or_length)
  have blk: "bloco_sum nt (nt div nb) b 0 ds =
         (\<Sum>i\<leftarrow>[0..<length ds].
            if i < nt \<and> i div (nt div nb) = b
            then (if d_baralho (ds ! i) \<in> {Deck_C, Deck_D} then 1 else - 1) else 0)" for b
    by (simp add: bloco_sum_def pontos_cases cong: if_cong)
  have tr: "\<forall>i. (nt div nb) * nb \<le> i \<longrightarrow> (\<forall>b < nb. i div (nt div nb) \<noteq> b)"
  proof (intro allI impI)
    fix i b assume a: "(nt div nb) * nb \<le> i" "b < nb"
    have "nb \<le> i div (nt div nb)" using a(1) t
      by (metis div_le_mono nonzero_mult_div_cancel_left less_numeral_extra(3))
    then show "i div (nt div nb) \<noteq> b" using a(2) by simp
  qed
  show ?thesis
    apply (rule exI[of _ "\<lparr> escolhas_baralho = contar_escolhas ds (\<lambda>b. 0),
                 pontuacao_liquida =
                   int (contar_escolhas ds (\<lambda>b. 0) Deck_C + contar_escolhas ds (\<lambda>b. 0) Deck_D) -
                   int (contar_escolhas ds (\<lambda>b. 0) Deck_A + contar_escolhas ds (\<lambda>b. 0) Deck_B),
                 pontuacoes_bloco = pb \<rparr>"])
    apply (intro conjI)
         apply (rule r)
        apply (simp only: resultados.simps net)
       apply (simp only: resultados.simps lpb)
      apply (simp only: resultados.simps) using pbs blk apply simp
     apply (rule tr)
    apply (rule exI[of _ "\<lparr> escolhas_baralho = contar_escolhas ?ds' (\<lambda>b. 0),
                 pontuacao_liquida =
                   int (contar_escolhas ?ds' (\<lambda>b. 0) Deck_C + contar_escolhas ?ds' (\<lambda>b. 0) Deck_D) -
                   int (contar_escolhas ?ds' (\<lambda>b. 0) Deck_A + contar_escolhas ?ds' (\<lambda>b. 0) Deck_B),
                 pontuacoes_bloco = pb' \<rparr>"])
    using r' eq apply simp
    done
qed

text \<open>
  Outside the hypothesis of C3: with fewer planned trials than blocks the block size is 0
  and the first record of the log raises ZeroDivisionError.
\<close>

lemma calcular_resultados_block_size_zero:
  "calcular_resultados 3 5 (picks [Deck_C]) = Inl ZeroDivisionError"
  by (simp add: calcular_resultados_def picks_def Let_def)

section \<open>Verification: the outcome schedule of the IGT\<close>

lemma gerar_resultados_ok:
  assumes "valores_perda p \<noteq> []"
  shows "\<exists>rs g'. gerar_resultados p n g = Inr (rs, g') \<and> length rs = n \<and>
     (\<forall>(r, pe, l) \<in> set rs. r = recompensa p \<and> (pe = 0 \<or> pe \<in> set (valores_perda p)) \<and> l = r - pe)"
proof (induction n arbitrary: g)
  case 0
  then show ?case by simp
next
  case (Suc n)
  obtain r g1 where rr: "random_random g = (r, g1)" by (cases "random_random g")
  define step where "step = (if r < freq_perda p then random_choice (valores_perda p) g1 else Inr (0, g1))"
  have "\<exists>pe g2. step = Inr (pe, g2) \<and> (pe = 0 \<or> pe \<in> set (valores_perda p))"
    using assms by (auto simp: step_def random_choice_def)
  then obtain pe g2 where st: "step = Inr (pe, g2)" and pe: "pe = 0 \<or> pe \<in> set (valores_perda p)"
    by blast
  obtain rs g3 where ih: "gerar_resultados p n g2 = Inr (rs, g3)" "length rs = n"
    "\<forall>(r, pe, l) \<in> set rs. r = recompensa p \<and> (pe = 0 \<or> pe \<in> set (valores_perda p)) \<and> l = r - pe"
    using Suc.IH[of g2] by blast
  have "gerar_resultados p (Suc n) g = Inr ((recompensa p, pe, recompensa p - pe) # rs, g3)"
    using rr st ih(1) by (simp add: step_def Let_def)
  then show ?case using ih(2,3) pe by auto
qed

lemma valores_perda_baralhos: "valores_perda (baralhos b) \<noteq> []"
  by (cases b) (simp_all add: BARALHO_A_def BARALHO_B_def BARALHO_C_def BARALHO_D_def)

lemma gerar_resultados_baralhos_ok:
  "\<exists>res g'. gerar_resultados_baralhos nt g = Inr (res, g') \<and>
     (\<forall>b. length (res b) = nt \<and>
        (\<forall>(r, pe, l) \<in> set (res b). r = recompensa (baralhos b) \<and>
            (pe = 0 \<or> pe \<in> set (valores_perda (baralhos b))) \<and> l = r - pe))"
proof -
  let ?P = "\<lambda>b rs. length rs = nt \<and>
        (\<forall>(r, pe, l) \<in> set rs. r = recompensa (baralhos b) \<and>
            (pe = 0 \<or> pe \<in> set (valores_perda (baralhos b))) \<and> l = r - pe)"
  obtain ra ga where a: "gerar_resultados (baralhos Deck_A) nt g = Inr (ra, ga)" "?P Deck_A ra"
    using gerar_resultados_ok[OF valores_perda_baralhos, of Deck_A nt g] by blast
  obtain rb gb where b: "gerar_resultados (baralhos Deck_B) nt ga = Inr (rb, gb)" "?P Deck_B rb"
    using gerar_resultados_ok[OF valores_perda_baralhos, of Deck_B nt ga] by blast
  obtain rc gc where c: "gerar_resultados (baralhos Deck_C) nt gb = Inr (rc, gc)" "?P Deck_C rc"
    using gerar_resultados_ok[OF valores_perda_baralhos, of Deck_C nt gb] by blast
  obtain rd gd where d: "gerar_resultados (baralhos Deck_D) nt gc = Inr (rd, gd)" "?P Deck_D rd"
    using gerar_resultados_ok[OF valores_perda_baralhos, of Deck_D nt gc] by blast
  let ?res = "\<lambda>b. case b of Deck_A \<Rightarrow> ra | Deck_B \<Rightarrow> rb | Deck_C \<Rightarrow> rc | Deck_D \<Rightarrow> rd"
  have e: "gerar_resultados_baralhos nt g = Inr (?res, gd)"
    unfolding gerar_resultados_baralhos_def using a(1) b(1) c(1) d(1) by simp
  have "?P b (?res b)" for b
    using a(2) b(2) c(2) d(2) by (cases b) simp_all
  then show ?thesis using e by blast
qed

lemma IowaGamblingTask_ok:
  "\<exists>s w'. IowaGamblingTask nt pid emb w = Inr (s, w') \<and> estado s = Instrucoes \<and> dados s = [] \<and>
      tentativa_atual s = 0 \<and> executando s \<and> dinheiro s = DINHEIRO_INICIAL \<and>
      polls w' = polls w \<and> clk w' = clk w \<and> files w' = files w \<and>
     (\<forall>b. length (resultados_baralhos s b) = nt \<and>
        (\<forall>(r, pe, l) \<in> set (resultados_baralhos s b). r = recompensa (baralhos b) \<and>
            (pe = 0 \<or> pe \<in> set (valores_perda (baralhos b))) \<and> l = r - pe))"
proof -
  obtain posicoes g1 where p: "(if emb then random_shuffle [Deck_A, Deck_B, Deck_C, Deck_D] (rnd w)
             else ([Deck_A, Deck_B, Deck_C, Deck_D], rnd w)) = (posicoes, g1)"
    by (cases "(if emb then random_shuffle [Deck_A, Deck_B, Deck_C, Deck_D] (rnd w)
             else ([Deck_A, Deck_B, Deck_C, Deck_D], rnd w))")
  obtain res g2 where g: "gerar_resultados_baralhos nt g1 = Inr (res, g2)"
    and r: "\<forall>b. length (res b) = nt \<and>
        (\<forall>(r, pe, l) \<in> set (res b). r = recompensa (baralhos b) \<and>
            (pe = 0 \<or> pe \<in> set (valores_perda (baralhos b))) \<and> l = r - pe)"
    using gerar_resultados_baralhos_ok[of nt g1] by blast
  show ?thesis
    unfolding IowaGamblingTask_def p using g r by simp
qed

lemma processar_escolha_Inr:
  assumes "processar_escolha nt b (s, w) = Inr (s', w')"
  shows "tentativa_atual s < length (resultados_baralhos s b) \<and>
     s' = s\<lparr> tempo_reacao := clk w 0 - tempo_inicio s,
             tempo_inicio := clk w 0,
             dinheiro := dinheiro s + snd (snd (resultados_baralhos s b ! tentativa_atual s)),
             dados := dados s @
               [\<lparr> d_tentativa = tentativa_atual s + 1, d_baralho = b,
                  d_recompensa = fst (resultados_baralhos s b ! tentativa_atual s),
                  d_perda = fst (snd (resultados_baralhos s b ! tentativa_atual s)),
                  d_liquido = snd (snd (resultados_baralhos s b ! tentativa_atual s)),
                  d_dinheiro_total = dinheiro s + snd (snd (resultados_baralhos s b ! tentativa_atual s)),
                  d_tempo_reacao = round3 (clk w 0 - tempo_inicio s) \<rparr>],
             feedback_dados := Some (b, resultados_baralhos s b ! tentativa_atual s),
             tempo_inicio_feedback := clk w 1,
             estado := (if nt \<le> tentativa_atual s + 1 then Resultados else Feedback),
             tentativa_atual := tentativa_atual s + 1 \<rparr> \<and>
     w' = w\<lparr>clk := advance (advance (clk w))\<rparr>"
  using assms
  by (auto simp: processar_escolha_def time_time_def advance_def Let_def split: prod.splits if_splits)

lemma processar_escolha_ok:
  assumes "tentativa_atual s < length (resultados_baralhos s b)"
  shows "\<exists>s' w'. processar_escolha nt b (s, w) = Inr (s', w')"
  using assms
  by (auto simp: processar_escolha_def time_time_def Let_def split: prod.splits)

lemma processar_eventos_instrucoes_keeps:
  "resultados_baralhos (processar_eventos_instrucoes es s) = resultados_baralhos s \<and>
   dados (processar_eventos_instrucoes es s) = dados s"
  by (induction es s rule: processar_eventos_instrucoes.induct) (auto split: option.splits)

lemma processar_eventos_resultados_keeps:
  "resultados_baralhos (processar_eventos_resultados es s) = resultados_baralhos s \<and>
   dados (processar_eventos_resultados es s) = dados s"
  by (induction es s rule: processar_eventos_resultados.induct) (auto split: option.splits)

lemma processar_escolha_keeps:
  "processar_escolha nt b (s, w) = Inr (s', w') \<Longrightarrow> resultados_baralhos s' = resultados_baralhos s"
  by (drule processar_escolha_Inr) simp

lemma processar_eventos_principal_keeps:
  "processar_eventos_principal nt es m sw = Inr sw' \<Longrightarrow>
     resultados_baralhos (fst sw') = resultados_baralhos (fst sw)"
proof (induction nt es m sw arbitrary: sw' rule: processar_eventos_principal.induct)
  case (4 nt button pos es mouse_pos s w)
  show ?case
  proof (cases "baralho_clicado (retangulos_baralhos s) mouse_pos")
    case None
    then show ?thesis using 4 by simp
  next
    case (Some b)
    then obtain sw1 where p: "processar_escolha nt b (s, w) = Inr sw1"
      and r: "processar_eventos_principal nt es mouse_pos sw1 = Inr sw'"
      using "4.prems" by (auto split: sum.splits)
    have "resultados_baralhos (fst sw') = resultados_baralhos (fst sw1)"
      using "4.IH"(2)[OF Some p r] .
    moreover have "resultados_baralhos (fst sw1) = resultados_baralhos s"
      using processar_escolha_keeps[of nt b s w "fst sw1" "snd sw1"] p by simp
    ultimately show ?thesis by simp
  qed
qed (auto split: if_splits)

lemma executar_frame_keeps:
  assumes "executar_frame nt nb sw = Inr sw'"
  shows "resultados_baralhos (fst sw') = resultados_baralhos (fst sw)"
proof (cases "estado (fst sw)")
  case Instrucoes
  then show ?thesis using assms
    by (auto simp: executar_frame_def desenhar_tela_instrucoes_def Let_def
        processar_eventos_instrucoes_keeps split: prod.splits)
next
  case Principal
  obtain s w where d: "desenhar_tela_principal sw = (s, w)" by (cases "desenhar_tela_principal sw")
  have k: "resultados_baralhos s = resultados_baralhos (fst sw)"
    using d by (auto simp: desenhar_tela_principal_def Let_def split: prod.splits if_splits)
  obtain b w1 where e: "event_get w = (b, w1)" by (cases "event_get w")
  have "processar_eventos_principal nt (fst b) (snd b) (s, w1) = Inr sw'"
    using assms Principal d e by (simp add: executar_frame_def)
  from processar_eventos_principal_keeps[OF this] k show ?thesis by simp
next
  case Feedback
  then show ?thesis using assms
    by (auto simp: executar_frame_def desenhar_feedback_def Let_def split: prod.splits option.splits if_splits)
next
  case Resultados
  then show ?thesis using assms
    by (auto simp: executar_frame_def desenhar_resultados_def Let_def
        processar_eventos_resultados_keeps split: prod.splits sum.splits)
qed

lemma executar_keeps:
  "resultados_baralhos (fst (final (executar nt nb fuel sw))) = resultados_baralhos (fst sw)"
proof (induction fuel arbitrary: sw)
  case 0
  obtain s w where sw: "sw = (s, w)" by (cases sw)
  show ?case unfolding sw
    by (auto simp: salvar_dados_def Let_def split: sum.splits)
next
  case (Suc fuel)
  obtain s w where sw: "sw = (s, w)" by (cases sw)
  show ?case
  proof (cases "executando s")
    case False
    then show ?thesis unfolding sw
      by (auto simp: salvar_dados_def Let_def split: sum.splits)
  next
    case True
    show ?thesis
    proof (cases "executar_frame nt nb (s, w)")
      case (Inl e)
      then show ?thesis unfolding sw using True by simp
    next
      case (Inr sw')
      have "resultados_baralhos (fst (final (executar nt nb fuel sw'))) = resultados_baralhos (fst sw')"
        by (rule Suc.IH)
      then show ?thesis unfolding sw using True Inr executar_frame_keeps[OF Inr] by simp
    qed
  qed
qed

text \<open>
  Claim C2. For every tape of draws, construction succeeds, leaves the task in the
  instructions state with an empty log, and has generated for every deck a schedule of
  exactly \<open>nt\<close> tuples (reward, loss, net) with the reward the deck's constant, the loss
  zero or one of the deck's loss values, and net = reward - loss. No iteration of the main
  loop and no exit path changes the schedule, and a processed choice of deck \<open>b\<close> appends
  exactly one record, which carries the tuple stored for \<open>b\<close> at the current trial index.
\<close>

theorem outcome_schedule:
  "\<exists>s w'. IowaGamblingTask nt pid emb w = Inr (s, w') \<and> estado s = Instrucoes \<and> dados s = [] \<and>
     (\<forall>b. length (resultados_baralhos s b) = nt \<and>
        (\<forall>(r, pe, l) \<in> set (resultados_baralhos s b). r = recompensa (baralhos b) \<and>
            (pe = 0 \<or> pe \<in> set (valores_perda (baralhos b))) \<and> l = r - pe)) \<and>
     (\<forall>nb fuel. resultados_baralhos (fst (final (executar nt nb fuel (s, w')))) = resultados_baralhos s) \<and>
     (\<forall>b t v t' v'. processar_escolha nt b (t, v) = Inr (t', v') \<longrightarrow>
        resultados_baralhos t' = resultados_baralhos t \<and>
        butlast (dados t') = dados t \<and>
        d_baralho (last (dados t')) = b \<and>
        (d_recompensa (last (dados t')), d_perda (last (dados t')), d_liquido (last (dados t')))
          = resultados_baralhos t b ! tentativa_atual t \<and>
        feedback_dados t' = Some (b, resultados_baralhos t b ! tentativa_atual t))"
proof -
  obtain s w' where i: "IowaGamblingTask nt pid emb w = Inr (s, w')" "estado s = Instrucoes" "dados s = []"
     "\<forall>b. length (resultados_baralhos s b) = nt \<and>
        (\<forall>(r, pe, l) \<in> set (resultados_baralhos s b). r = recompensa (baralhos b) \<and>
            (pe = 0 \<or> pe \<in> set (valores_perda (baralhos b))) \<and> l = r - pe)"
    using IowaGamblingTask_ok[of nt pid emb w] by blast
  have k: "\<forall>nb fuel. resultados_baralhos (fst (final (executar nt nb fuel (s, w')))) = resultados_baralhos s"
    using executar_keeps[of nt _ _ "(s, w')"] by simp
  have p: "\<forall>b t v t' v'. processar_escolha nt b (t, v) = Inr (t', v') \<longrightarrow>
        resultados_baralhos t' = resultados_baralhos t \<and>
        butlast (dados t') = dados t \<and>
        d_baralho (last (dados t')) = b \<and>
        (d_recompensa (last (dados t')), d_perda (last (dados t')), d_liquido (last (dados t')))
          = resultados_baralhos t b ! tentativa_atual t \<and>
        feedback_dados t' = Some (b, resultados_baralhos t b ! tentativa_atual t)"
  proof (intro allI impI)
    fix b t v t' v'
    assume "processar_escolha nt b (t, v) = Inr (t', v')"
    from processar_escolha_Inr[OF this]
    show "resultados_baralhos t' = resultados_baralhos t \<and>
        butlast (dados t') = dados t \<and>
        d_baralho (last (dados t')) = b \<and>
        (d_recompensa (last (dados t')), d_perda (last (dados t')), d_liquido (last (dados t')))
          = resultados_baralhos t b ! tentativa_atual t \<and>
        feedback_dados t' = Some (b, resultados_baralhos t b ! tentativa_atual t)"
      by simp
  qed
  show ?thesis using i k p by blast
qed

section \<open>Verification: feedback after a choice\<close>




text \<open>
  Outside the hypothesis of C6: a choice processed when the trial counter is already at
  the end of the schedule raises IndexError. The loop over a batch of events goes on after
  a choice, so a second pointer event in the batch of the last trial ends the run with
  that fault, and nothing is saved.
\<close>

lemma processar_escolha_IndexError:
  "length (resultados_baralhos s b) \<le> tentativa_atual s \<Longrightarrow>
   processar_escolha nt b (s, w) = Inl IndexError"
  by (simp add: processar_escolha_def time_time_def Let_def split: prod.splits)

section \<open>Verification: abort signals and persistence\<close>












section \<open>Verification: the analysis of the CCT\<close>

lemma analysis_Inr:
  assumes "results_df \<noteq> []"
  shows "\<exists>a e. analysis results_df =
           Inr \<lparr> block_lines = map (block_line results_df) [1..<NUM_BLOCKS + 1],
                 accuracy = a, contextual_effect = e \<rparr>"
  using assms by (simp add: analysis_def Let_def)

lemma block_line_sentinel:
  "\<exists>rt nv. block_line results_df i = (i, rt, nv, nv - rt) \<and>
     (group_times results_df i True = [] \<longrightarrow> rt = 0) \<and>
     (group_times results_df i False = [] \<longrightarrow> nv = 0) \<and>
     (group_times results_df i True \<noteq> [] \<longrightarrow>
        rt = sum_list (group_times results_df i True) / of_nat (length (group_times results_df i True))) \<and>
     (group_times results_df i False \<noteq> [] \<longrightarrow>
        nv = sum_list (group_times results_df i False) / of_nat (length (group_times results_df i False)))"
  by (simp add: block_line_def mean_def Let_def)

text \<open>
  Claim C9, as amended. For every non-empty log the analysis succeeds and is written; it
  has one line per block 1..NUM_BLOCKS, and in the line of block \<open>i\<close> the mean of a
  condition without correct records in that block is 0, the mean of any other group is
  the sum of its response times divided by their number, and the difference is the novel
  mean minus the repeated mean.
\<close>

theorem empty_group_sentinel:
  assumes "results_df \<noteq> []"
  shows "\<exists>rep. analysis results_df = Inr rep \<and>
     txt_file (files (snd (save_results (c\<lparr>trial_results := results_df\<rparr>, v)))) = Some rep \<and>
     length (block_lines rep) = NUM_BLOCKS \<and>
     (\<forall>i. 1 \<le> i \<and> i \<le> NUM_BLOCKS \<longrightarrow>
        (\<exists>rt nv. block_lines rep ! (i - 1) = (i, rt, nv, nv - rt) \<and>
           (group_times results_df i True = [] \<longrightarrow> rt = 0) \<and>
           (group_times results_df i False = [] \<longrightarrow> nv = 0) \<and>
           (group_times results_df i True \<noteq> [] \<longrightarrow>
              rt = sum_list (group_times results_df i True) /
                   of_nat (length (group_times results_df i True))) \<and>
           (group_times results_df i False \<noteq> [] \<longrightarrow>
              nv = sum_list (group_times results_df i False) /
                   of_nat (length (group_times results_df i False)))))"
proof -
  obtain a e where r: "analysis results_df =
           Inr \<lparr> block_lines = map (block_line results_df) [1..<NUM_BLOCKS + 1],
                 accuracy = a, contextual_effect = e \<rparr>"
    using analysis_Inr[OF assms] by blast
  let ?rep = "\<lparr> block_lines = map (block_line results_df) [1..<NUM_BLOCKS + 1],
                 accuracy = a, contextual_effect = e \<rparr>"
  have s: "txt_file (files (snd (save_results (c\<lparr>trial_results := results_df\<rparr>, v)))) = Some ?rep"
    using r by (simp add: save_results_def Let_def)
  have l: "length (block_lines ?rep) = NUM_BLOCKS" by simp
  have n: "block_lines ?rep ! (i - 1) = block_line results_df i" if "1 \<le> i \<and> i \<le> NUM_BLOCKS" for i
  proof -
    have "i - 1 < length [1..<NUM_BLOCKS + 1]" using that by auto
    then have "map (block_line results_df) [1..<NUM_BLOCKS + 1] ! (i - 1)
               = block_line results_df ([1..<NUM_BLOCKS + 1] ! (i - 1))"
      by (rule nth_map)
    moreover have "[1..<NUM_BLOCKS + 1] ! (i - 1) = i"
    proof -
      have "1 + (i - 1) < NUM_BLOCKS + 1" using that by auto
      then have "[1..<NUM_BLOCKS + 1] ! (i - 1) = 1 + (i - 1)" by (rule nth_upt)
      then show ?thesis using that by auto
    qed
    ultimately show ?thesis by simp
  qed
  show ?thesis
    apply (rule exI[of _ ?rep])
    apply (intro conjI allI impI)
       apply (rule r)
      apply (rule s)
     apply (rule l)
    apply (simp only: n)
    apply (rule block_line_sentinel)
    done
qed

section \<open>Verification: clicks during a trial\<close>

lemma hit_unique:
  assumes "generate gs n cid rep g = Inr (cfg, g')"
    and "a \<in> set (stimuli cfg)" and "b \<in> set (stimuli cfg)"
    and "contains_point a pt" and "contains_point b pt"
  shows "a = b"
proof -
  obtain i where i: "i < length (stimuli cfg)" "stimuli cfg ! i = a"
    using assms(2) by (auto simp: in_set_conv_nth)
  obtain j where j: "j < length (stimuli cfg)" "stimuli cfg ! j = b"
    using assms(3) by (auto simp: in_set_conv_nth)
  have "i = j"
  proof (rule ccontr)
    assume "i \<noteq> j"
    from stimuli_apart[OF assms(1) i(1) j(1) this, of pt] show False
      using assms(4,5) i(2) j(2) by simp
  qed
  then show ?thesis using i(2) j(2) by simp
qed

lemma target_in_stimuli:
  assumes "generate gs n cid rep g = Inr (cfg, g')"
  shows "target cfg \<in> set (stimuli cfg)"
proof -
  have "0 < n" "n \<le> gs ^ 2" using generate_Inr_range[OF assms] by simp_all
  then obtain cfg0 g0 where "generate gs n cid rep g = Inr (cfg0, g0)"
    "stimuli cfg0 = target cfg0 # tl (stimuli cfg0)"
    using generate_props[of n gs cid rep g] by blast
  then have "stimuli cfg = target cfg # tl (stimuli cfg)" using assms by simp
  then show ?thesis by (metis list.set_intros(1))
qed

lemma next_trial_keeps:
  "trial_results (next_trial c) = trial_results c \<and> state (next_trial c) \<noteq> Trial \<and>
   repeated_configs (next_trial c) = repeated_configs c"
  by (simp add: next_trial_def Let_def)

lemma left_click_event:
  assumes "current_config c = Some cfg"
  shows "run_trial_event (MOUSEBUTTONDOWN 1 pos) (c, v) =
     (if contains_point (target cfg) pos \<or> (\<exists>stim \<in> set (stimuli cfg). contains_point stim pos)
      then Returned (next_trial (record_trial (clk v 0 - trial_start_time c)
                                   (contains_point (target cfg) pos) cfg c),
                     v\<lparr>clk := advance (clk v)\<rparr>)
      else Returned (c, v))"
  using assms by (auto simp: run_trial_event_def time_time_def Let_def)

text \<open>
  Claim C7, as amended. For a generated configuration on display and every click of the
  left button: if the click lies in the hit region of some stimulus, exactly one record
  is appended, the trial advances (the state leaves the trial state through
  \<open>next_trial\<close>), and the record is correct exactly when the clicked stimulus is the
  target; if it lies in no hit region, nothing changes.
\<close>

theorem left_click_in_trial:
  assumes "generate gs n cid rep g = Inr (cfg, g')" and "current_config c = Some cfg"
  shows "((\<exists>stim \<in> set (stimuli cfg). contains_point stim pos) \<longrightarrow>
           (\<exists>r c'. run_trial_event (MOUSEBUTTONDOWN 1 pos) (c, v) =
                      Returned (c', v\<lparr>clk := advance (clk v)\<rparr>) \<and>
                 c' = next_trial (c\<lparr>trial_results := trial_results c @ [r]\<rparr>) \<and>
                 trial_results c' = trial_results c @ [r] \<and>
                 state c' \<noteq> Trial \<and>
                 td_is_correct r = contains_point (target cfg) pos \<and>
                 (\<forall>stim \<in> set (stimuli cfg). contains_point stim pos \<longrightarrow>
                     (td_is_correct r \<longleftrightarrow> stim = target cfg)))) \<and>
         (\<not> (\<exists>stim \<in> set (stimuli cfg). contains_point stim pos) \<longrightarrow>
           run_trial_event (MOUSEBUTTONDOWN 1 pos) (c, v) = Returned (c, v))"
proof (intro conjI impI)
  assume h: "\<exists>stim \<in> set (stimuli cfg). contains_point stim pos"
  let ?r = "\<lparr> td_participant = participant_id c,
            td_block = current_block c + 1,
            td_trial = current_trial c + 1,
            td_configuration_id = config_id cfg,
            td_is_repeated = is_repeated cfg,
            td_response_time = round3 (clk v 0 - trial_start_time c),
            td_is_correct = contains_point (target cfg) pos,
            td_target_position = position (target cfg) \<rparr>"
  have rt: "record_trial (clk v 0 - trial_start_time c) (contains_point (target cfg) pos) cfg c
            = c\<lparr>trial_results := trial_results c @ [?r]\<rparr>"
    by (simp add: record_trial_def)
  have e: "run_trial_event (MOUSEBUTTONDOWN 1 pos) (c, v) =
      Returned (next_trial (c\<lparr>trial_results := trial_results c @ [?r]\<rparr>), v\<lparr>clk := advance (clk v)\<rparr>)"
    using left_click_event[OF assms(2), of pos v] h rt by simp
  have u: "\<forall>stim \<in> set (stimuli cfg). contains_point stim pos \<longrightarrow>
                     (td_is_correct ?r \<longleftrightarrow> stim = target cfg)"
  proof (intro ballI impI)
    fix stim assume s: "stim \<in> set (stimuli cfg)" "contains_point stim pos"
    show "td_is_correct ?r \<longleftrightarrow> stim = target cfg"
    proof
      assume "td_is_correct ?r"
      then have "contains_point (target cfg) pos" by simp
      from hit_unique[OF assms(1) s(1) target_in_stimuli[OF assms(1)] s(2) this]
      show "stim = target cfg" .
    next
      assume "stim = target cfg"
      then show "td_is_correct ?r" using s(2) by simp
    qed
  qed
  show "\<exists>r c'. run_trial_event (MOUSEBUTTONDOWN 1 pos) (c, v) =
                      Returned (c', v\<lparr>clk := advance (clk v)\<rparr>) \<and>
                 c' = next_trial (c\<lparr>trial_results := trial_results c @ [r]\<rparr>) \<and>
                 trial_results c' = trial_results c @ [r] \<and>
                 state c' \<noteq> Trial \<and>
                 td_is_correct r = contains_point (target cfg) pos \<and>
                 (\<forall>stim \<in> set (stimuli cfg). contains_point stim pos \<longrightarrow>
                     (td_is_correct r \<longleftrightarrow> stim = target cfg))"
    apply (rule exI[of _ ?r])
    apply (rule exI[of _ "next_trial (c\<lparr>trial_results := trial_results c @ [?r]\<rparr>)"])
    apply (intro conjI)
         apply (rule e)
        apply (rule refl)
       apply (simp add: next_trial_keeps)
      apply (simp add: next_trial_keeps)
     apply simp
    apply (rule u)
    done
next
  assume h: "\<not> (\<exists>stim \<in> set (stimuli cfg). contains_point stim pos)"
  have "\<not> contains_point (target cfg) pos"
    using h target_in_stimuli[OF assms(1)] by blast
  then show "run_trial_event (MOUSEBUTTONDOWN 1 pos) (c, v) = Returned (c, v)"
    using left_click_event[OF assms(2), of pos v] h by simp
qed

section \<open>Verification: selection of the trial type\<close>

lemma Configuration_ok:
  "\<exists>cfg g'. Configuration cid rep g = Inr (cfg, g') \<and> config_id cfg = cid \<and> is_repeated cfg = rep"
proof -
  have "0 < NUM_ITEMS" "NUM_ITEMS \<le> GRID_SIZE ^ 2" by (simp_all add: NUM_ITEMS_def GRID_SIZE_def)
  from generate_Inr[OF this, of g cid rep] show ?thesis
    unfolding Configuration_def by auto
qed

lemma make_configs_ok:
  "\<exists>cs g'. make_configs is g = Inr (cs, g') \<and> length cs = length is"
proof (induction "is" arbitrary: g)
  case Nil
  then show ?case by simp
next
  case (Cons i "is")
  obtain c g1 where c: "Configuration (int i) True g = Inr (c, g1)"
    using Configuration_ok[of "int i" True g] by blast
  obtain cs g2 where cs: "make_configs is g1 = Inr (cs, g2)" "length cs = length is"
    using Cons.IH[of g1] by blast
  show ?case using c cs by simp
qed

lemma setup_experiment_ok:
  "\<exists>c' v'. setup_experiment (c, v) = Returned (c', v') \<and>
      length (repeated_configs c') = NUM_REPEATED_CONFIGS \<and>
      c' = c\<lparr>repeated_configs := repeated_configs c',
             total_trials := (NUM_REPEATED_CONFIGS + NUM_NOVEL_CONFIGS) * NUM_BLOCKS\<rparr> \<and>
      polls v' = polls v \<and> clk v' = clk v \<and> files v' = files v"
proof -
  obtain cs g' where m: "make_configs [0..<NUM_REPEATED_CONFIGS] (rnd v) = Inr (cs, g')"
    "length cs = length [0..<NUM_REPEATED_CONFIGS]"
    using make_configs_ok by blast
  show ?thesis using m by (simp add: setup_experiment_def)
qed

lemma prepare_trial_novel:
  assumes "fst (random_random (rnd v)) < 1 / 2 \<or> NUM_REPEATED_CONFIGS \<le> current_trial c"
  shows "\<exists>cfg g2. Configuration (- 1) False (snd (random_random (rnd v))) = Inr (cfg, g2) \<and>
           config_id cfg = - 1 \<and> \<not> is_repeated cfg \<and>
           prepare_trial (c, v) =
             Returned (c\<lparr>current_config := Some cfg, trial_start_time := clk v 0\<rparr>,
                       v\<lparr>rnd := g2, clk := advance (clk v)\<rparr>)"
proof -
  obtain cfg g2 where k: "Configuration (- 1) False (snd (random_random (rnd v))) = Inr (cfg, g2)"
    "config_id cfg = - 1" "is_repeated cfg = False"
    using Configuration_ok[of "- 1" False "snd (random_random (rnd v))"] by blast
  have "prepare_trial (c, v) =
             Returned (c\<lparr>current_config := Some cfg, trial_start_time := clk v 0\<rparr>,
                       v\<lparr>rnd := g2, clk := advance (clk v)\<rparr>)"
    using assms k(1) by (auto simp: prepare_trial_def time_time_def Let_def split: prod.splits)
  then show ?thesis using k by blast
qed

lemma prepare_trial_repeated:
  assumes "\<not> (fst (random_random (rnd v)) < 1 / 2 \<or> NUM_REPEATED_CONFIGS \<le> current_trial c)"
    and "length (repeated_configs c) = NUM_REPEATED_CONFIGS"
  shows "prepare_trial (c, v) =
           Returned (c\<lparr>current_config :=
                         Some (repeated_configs c ! (current_trial c mod NUM_REPEATED_CONFIGS)),
                       trial_start_time := clk v 0\<rparr>,
                     v\<lparr>rnd := snd (random_random (rnd v)), clk := advance (clk v)\<rparr>)"
proof -
  have "current_trial c mod NUM_REPEATED_CONFIGS < length (repeated_configs c)"
    using assms by (simp add: NUM_REPEATED_CONFIGS_def)
  then show ?thesis using assms(1)
    by (auto simp: prepare_trial_def time_time_def Let_def split: prod.splits)
qed

lemma prepare_trial_keeps:
  "repeated_configs (fst (final (prepare_trial (c, v)))) = repeated_configs c \<and>
   trial_results (fst (final (prepare_trial (c, v)))) = trial_results c"
  by (auto simp: prepare_trial_def time_time_def Let_def split: prod.splits sum.splits)

lemma show_fixation_keeps:
  "repeated_configs (fst (final (show_fixation (c, v)))) = repeated_configs c"
  by (auto simp: show_fixation_def time_time_def Let_def prepare_trial_keeps split: prod.splits)

lemma run_trial_event_keeps:
  "repeated_configs (fst (final (run_trial_event ev (c, v)))) = repeated_configs c"
  by (cases ev)
     (auto simp: run_trial_event_def time_time_def Let_def record_trial_def next_trial_keeps
           split: prod.splits option.splits)

lemma run_trial_events_keeps:
  "repeated_configs (fst (final (run_trial_events evs cv))) = repeated_configs (fst cv)"
proof (induction evs arbitrary: cv)
  case Nil
  then show ?case by simp
next
  case (Cons ev evs)
  obtain c v where cv: "cv = (c, v)" by (cases cv)
  have k: "repeated_configs (fst (final (run_trial_event ev (c, v)))) = repeated_configs c"
    by (rule run_trial_event_keeps)
  show ?case
  proof (cases "run_trial_event ev (c, v)")
    case (Returned cv')
    then show ?thesis using Cons.IH[of cv'] k cv by simp
  qed (use k cv in simp_all)
qed

lemma run_trial_keeps:
  "repeated_configs (fst (final (run_trial (c, v)))) = repeated_configs c"
  using run_trial_events_keeps[of _ "(c, _)"]
  by (auto simp: run_trial_def event_get_def Let_def split: option.splits prod.splits list.splits)

lemma show_break_events_keeps:
  "show_break_events es sb = Some sb' \<Longrightarrow> repeated_configs (fst sb') = repeated_configs (fst sb)"
  by (induction es sb arbitrary: sb' rule: show_break_events.induct) (auto split: if_splits)

lemma show_break_wait_keeps:
  "show_break_wait ps c = Some (Some c', bs) \<Longrightarrow> repeated_configs c' = repeated_configs c"
proof (induction ps arbitrary: c)
  case Nil
  then show ?case by simp
next
  case (Cons p ps)
  show ?case
  proof (cases "show_break_events (fst p) (c, True)")
    case None
    then show ?thesis using Cons.prems by simp
  next
    case (Some sb)
    obtain c1 waiting where sb: "sb = (c1, waiting)" by (cases sb)
    have k: "repeated_configs c1 = repeated_configs c"
      using show_break_events_keeps[OF Some] sb by simp
    show ?thesis
    proof (cases waiting)
      case True
      then have "show_break_wait ps c1 = Some (Some c', bs)" using Cons.prems Some sb by simp
      from Cons.IH[OF this] k show ?thesis by simp
    next
      case False
      then show ?thesis using Cons.prems Some sb k by simp
    qed
  qed
qed

lemma show_break_keeps:
  "repeated_configs (fst (final (show_break (c, v)))) = repeated_configs c"
  using show_break_wait_keeps[of "polls v" c]
  by (auto simp: show_break_def split: option.splits prod.splits)

lemma run_step_keeps:
  "repeated_configs (fst (final (run_step (c, v)))) = repeated_configs c"
proof (cases "state c")
  case Welcome
  then show ?thesis by (auto simp: run_step_def show_welcome_def split: option.splits prod.splits)
next
  case Fixation
  then show ?thesis by (simp add: run_step_def show_fixation_keeps)
next
  case Trial
  then show ?thesis by (simp add: run_step_def run_trial_keeps)
next
  case Break
  then show ?thesis by (simp add: run_step_def show_break_keeps)
next
  case End
  then show ?thesis
    by (auto simp: run_step_def show_end_def save_results_def Let_def
        split: option.splits prod.splits sum.splits)
qed

lemma run_loop_keeps:
  "repeated_configs (fst (final (run_loop fuel cv))) = repeated_configs (fst cv)"
proof (induction fuel arbitrary: cv)
  case 0
  then show ?case by simp
next
  case (Suc fuel)
  obtain c v where cv: "cv = (c, v)" by (cases cv)
  have k: "repeated_configs (fst (final (run_step (c, v)))) = repeated_configs c"
    by (rule run_step_keeps)
  show ?case
  proof (cases "run_step (c, v)")
    case (Returned cv')
    then show ?thesis using Suc.IH[of cv'] k cv by simp
  qed (use k cv in simp_all)
qed

text \<open>
  Claim C8. Setup stores NUM_REPEATED_CONFIGS repeated configurations. \<open>prepare_trial\<close>
  draws once; when the draw is below 1/2 or the trial index within the block has reached
  NUM_REPEATED_CONFIGS it generates a fresh configuration with id -1 that is not marked
  repeated; otherwise it takes the stored configuration at index
  \<open>current_trial mod NUM_REPEATED_CONFIGS\<close>, consuming no further draw. No iteration of
  the main loop changes the stored configurations.
\<close>

theorem trial_type_selection:
  "(\<exists>c0 v0. setup_experiment (Experiment\<lparr>participant_id := pid\<rparr>, w) = Returned (c0, v0) \<and>
       length (repeated_configs c0) = NUM_REPEATED_CONFIGS) \<and>
   (fst (random_random (rnd v)) < 1 / 2 \<or> NUM_REPEATED_CONFIGS \<le> current_trial c \<longrightarrow>
      (\<exists>cfg g2. Configuration (- 1) False (snd (random_random (rnd v))) = Inr (cfg, g2) \<and>
           config_id cfg = - 1 \<and> \<not> is_repeated cfg \<and>
           prepare_trial (c, v) =
             Returned (c\<lparr>current_config := Some cfg, trial_start_time := clk v 0\<rparr>,
                       v\<lparr>rnd := g2, clk := advance (clk v)\<rparr>))) \<and>
   (\<not> (fst (random_random (rnd v)) < 1 / 2 \<or> NUM_REPEATED_CONFIGS \<le> current_trial c) \<and>
    length (repeated_configs c) = NUM_REPEATED_CONFIGS \<longrightarrow>
      prepare_trial (c, v) =
        Returned (c\<lparr>current_config :=
                      Some (repeated_configs c ! (current_trial c mod NUM_REPEATED_CONFIGS)),
                    trial_start_time := clk v 0\<rparr>,
                  v\<lparr>rnd := snd (random_random (rnd v)), clk := advance (clk v)\<rparr>)) \<and>
   (\<forall>fuel. repeated_configs (fst (final (run_loop fuel (c, v)))) = repeated_configs c)"
proof (intro conjI impI allI)
  show "\<exists>c0 v0. setup_experiment (Experiment\<lparr>participant_id := pid\<rparr>, w) = Returned (c0, v0) \<and>
       length (repeated_configs c0) = NUM_REPEATED_CONFIGS"
    using setup_experiment_ok[of "Experiment\<lparr>participant_id := pid\<rparr>" w] by blast
next
  assume "fst (random_random (rnd v)) < 1 / 2 \<or> NUM_REPEATED_CONFIGS \<le> current_trial c"
  then show "\<exists>cfg g2. Configuration (- 1) False (snd (random_random (rnd v))) = Inr (cfg, g2) \<and>
           config_id cfg = - 1 \<and> \<not> is_repeated cfg \<and>
           prepare_trial (c, v) =
             Returned (c\<lparr>current_config := Some cfg, trial_start_time := clk v 0\<rparr>,
                       v\<lparr>rnd := g2, clk := advance (clk v)\<rparr>)"
    by (rule prepare_trial_novel)
next
  assume "\<not> (fst (random_random (rnd v)) < 1 / 2 \<or> NUM_REPEATED_CONFIGS \<le> current_trial c) \<and>
    length (repeated_configs c) = NUM_REPEATED_CONFIGS"
  then show "prepare_trial (c, v) =
        Returned (c\<lparr>current_config :=
                      Some (repeated_configs c ! (current_trial c mod NUM_REPEATED_CONFIGS)),
                    trial_start_time := clk v 0\<rparr>,
                  v\<lparr>rnd := snd (random_random (rnd v)), clk := advance (clk v)\<rparr>)"
    using prepare_trial_repeated by blast
next
  fix fuel
  show "repeated_configs (fst (final (run_loop fuel (c, v)))) = repeated_configs c"
    using run_loop_keeps[of fuel "(c, v)"] by simp
qed

section \<open>Verification: reaction times\<close>

lemma show_fixation_entry:
  assumes "state c = Fixation" "show_fixation (c, v) = Returned (c', v')" "state c' = Trial"
  shows "trial_start_time c' = clk v (if fixation_start_time c = 0 then 2 else 1)"
  using assms
  by (auto simp: show_fixation_def prepare_trial_def time_time_def advance_def Let_def
      numeral_2_eq_2 split: prod.splits if_splits sum.splits)

text \<open>
  Claim C5, as amended. CCT: on entering the trial state the baseline is the clock reading
  taken by \<open>prepare_trial\<close>, and the recorded time of a qualifying click is the reading
  at the click minus that baseline, rounded to three decimals. IGT: the recorded time of a
  choice is the reading at the choice minus \<open>tempo_inicio\<close>, rounded to three decimals;
  \<open>tempo_inicio\<close> is set when the main screen is first drawn and then at every
  choice, and neither later main-screen frames nor feedback frames change it.
\<close>

theorem reaction_time_baseline:
  "(state c = Fixation \<and> run_step (c, v) = Returned (c', v') \<and> state c' = Trial \<longrightarrow>
      trial_start_time c' = clk v (if fixation_start_time c = 0 then 2 else 1)) \<and>
   (current_config c = Some cfg \<and>
      (contains_point (target cfg) pos \<or> (\<exists>stim \<in> set (stimuli cfg). contains_point stim pos)) \<longrightarrow>
      (\<exists>c2. run_trial_event (MOUSEBUTTONDOWN 1 pos) (c, v) = Returned (c2, v\<lparr>clk := advance (clk v)\<rparr>) \<and>
            butlast (trial_results c2) = trial_results c \<and>
            td_response_time (last (trial_results c2)) = round3 (clk v 0 - trial_start_time c))) \<and>
   (processar_escolha nt b (s, w) = Inr (s', w') \<longrightarrow>
      butlast (dados s') = dados s \<and>
      d_tempo_reacao (last (dados s')) = round3 (clk w 0 - tempo_inicio s) \<and>
      tempo_inicio s' = clk w 0) \<and>
   tempo_inicio (fst (desenhar_tela_principal (s, w))) =
      (if tentativa_atual s = 0 \<and> tempo_inicio s = 0 then clk w 0 else tempo_inicio s) \<and>
   tempo_inicio (fst (desenhar_feedback (s, w))) = tempo_inicio s"
proof -
  have 1: "state c = Fixation \<and> run_step (c, v) = Returned (c', v') \<and> state c' = Trial \<longrightarrow>
      trial_start_time c' = clk v (if fixation_start_time c = 0 then 2 else 1)"
    using show_fixation_entry[of c v c' v'] by (auto simp: run_step_def)
  have 2: "current_config c = Some cfg \<and>
      (contains_point (target cfg) pos \<or> (\<exists>stim \<in> set (stimuli cfg). contains_point stim pos)) \<longrightarrow>
      (\<exists>c2. run_trial_event (MOUSEBUTTONDOWN 1 pos) (c, v) = Returned (c2, v\<lparr>clk := advance (clk v)\<rparr>) \<and>
            butlast (trial_results c2) = trial_results c \<and>
            td_response_time (last (trial_results c2)) = round3 (clk v 0 - trial_start_time c))"
  proof
    assume a: "current_config c = Some cfg \<and>
      (contains_point (target cfg) pos \<or> (\<exists>stim \<in> set (stimuli cfg). contains_point stim pos))"
    let ?c2 = "next_trial (record_trial (clk v 0 - trial_start_time c)
                                   (contains_point (target cfg) pos) cfg c)"
    have e: "run_trial_event (MOUSEBUTTONDOWN 1 pos) (c, v) = Returned (?c2, v\<lparr>clk := advance (clk v)\<rparr>)"
      using a by (auto simp: run_trial_event_def time_time_def Let_def)
    have t: "trial_results ?c2 = trial_results c @
     [\<lparr> td_participant = participant_id c,
            td_block = current_block c + 1,
            td_trial = current_trial c + 1,
            td_configuration_id = config_id cfg,
            td_is_repeated = is_repeated cfg,
            td_response_time = round3 (clk v 0 - trial_start_time c),
            td_is_correct = contains_point (target cfg) pos,
            td_target_position = position (target cfg) \<rparr>]"
      by (simp add: next_trial_def record_trial_def Let_def)
    show "\<exists>c2. run_trial_event (MOUSEBUTTONDOWN 1 pos) (c, v) = Returned (c2, v\<lparr>clk := advance (clk v)\<rparr>) \<and>
            butlast (trial_results c2) = trial_results c \<and>
            td_response_time (last (trial_results c2)) = round3 (clk v 0 - trial_start_time c)"
      using e t by simp
  qed
  have 3: "processar_escolha nt b (s, w) = Inr (s', w') \<longrightarrow>
      butlast (dados s') = dados s \<and>
      d_tempo_reacao (last (dados s')) = round3 (clk w 0 - tempo_inicio s) \<and>
      tempo_inicio s' = clk w 0"
  proof
    assume "processar_escolha nt b (s, w) = Inr (s', w')"
    from processar_escolha_Inr[OF this]
    show "butlast (dados s') = dados s \<and>
      d_tempo_reacao (last (dados s')) = round3 (clk w 0 - tempo_inicio s) \<and>
      tempo_inicio s' = clk w 0"
      by simp
  qed
  have 4: "tempo_inicio (fst (desenhar_tela_principal (s, w))) =
      (if tentativa_atual s = 0 \<and> tempo_inicio s = 0 then clk w 0 else tempo_inicio s)"
    by (simp add: desenhar_tela_principal_def time_time_def Let_def)
  have 5: "tempo_inicio (fst (desenhar_feedback (s, w))) = tempo_inicio s"
    by (simp add: desenhar_feedback_def time_time_def Let_def split: option.splits)
  show ?thesis using 1 2 3 4 5 by blast
qed

section \<open>The example sessions, evaluated\<close>

text \<open>
  On a constant tape every call of the random module returns the same tape, so the
  generator can be evaluated once and the sessions of the CCT stepped through by
  rewriting.
\<close>

lemma advance_const: "advance (\<lambda>i. c) = (\<lambda>i. c)"
  by (simp add: advance_def)

lemma sample_pool_const: "snd (sample_pool pool k (\<lambda>i. c)) = (\<lambda>i. c)"
  by (induction k arbitrary: pool) (simp_all add: advance_const Let_def split_beta)

lemma distractors_const:
  "distractors gs ps (\<lambda>i. c) = Inr (ds, g') \<Longrightarrow> g' = (\<lambda>i. c)"
  by (induction ps arbitrary: ds)
     (auto simp: random_choice_def rotations_def advance_const split: sum.splits prod.splits)

lemma generate_const:
  "generate gs n cid rep (\<lambda>i. c) = Inr (cfg, g') \<Longrightarrow> g' = (\<lambda>i. c)"
  using sample_pool_const[of "grid_positions gs" n c]
  by (auto simp: generate_def random_sample_def random_choice_def rotations_def advance_const Let_def
      split: sum.splits prod.splits list.splits if_splits dest: distractors_const)

lemma generate_zero_eval:
  "map_sum id fst (generate 6 12 (- 1) False (\<lambda>i. 0)) = Inr cfg0"
  by code_simp

lemma generate_cid_rep:
  "generate gs n cid rep g = Inr (cfg, g') \<Longrightarrow>
   generate gs n cid' rep' g = Inr (cfg\<lparr>config_id := cid', is_repeated := rep'\<rparr>, g')"
  by (auto simp: generate_def Let_def split: sum.splits prod.splits list.splits)

lemma generate_zero: "generate 6 12 (- 1) False (\<lambda>i. 0) = Inr (cfg0, \<lambda>i. 0)"
proof -
  obtain x where x: "generate 6 12 (- 1) False (\<lambda>i. 0) = Inr x" "fst x = cfg0"
    using generate_zero_eval by (cases "generate 6 12 (- 1) False (\<lambda>i. 0)") auto
  then have "generate 6 12 (- 1) False (\<lambda>i. 0) = Inr (cfg0, snd x)" by (cases x) simp
  moreover from this have "snd x = (\<lambda>i. 0)" by (rule generate_const)
  ultimately show ?thesis by simp
qed

lemma Configuration_zero:
  "Configuration cid rep (\<lambda>i. 0) = Inr (cfg0\<lparr>config_id := cid, is_repeated := rep\<rparr>, \<lambda>i. 0)"
  using generate_cid_rep[OF generate_zero, of cid rep]
  by (simp add: Configuration_def GRID_SIZE_def NUM_ITEMS_def)

lemma make_configs_zero:
  "make_configs is (\<lambda>i. 0) = Inr (map (\<lambda>i. cfg0\<lparr>config_id := int i, is_repeated := True\<rparr>) is, \<lambda>i. 0)"
  by (induction "is") (simp_all add: Configuration_zero)

lemma run_loop_numeral:
  "run_loop (numeral k) sw =
     (case run_step sw of Returned sw' \<Rightarrow> run_loop (pred_numeral k) sw' | other \<Rightarrow> other)"
  by (simp add: numeral_eq_Suc)

lemma run_loop_1:
  "run_loop 1 sw = (case run_step sw of Returned sw' \<Rightarrow> run_loop 0 sw' | other \<Rightarrow> other)"
  by (metis One_nat_def run_loop.simps(2))

lemmas cct_eval =
  cct_after_def run_def setup_experiment_def make_configs_zero run_loop_numeral run_loop_1
  run_step_def show_welcome_def show_fixation_def prepare_trial_def Configuration_zero
  run_trial_def run_trial_event_def event_get_def time_time_def advance_def random_random_def
  cct_world_def cct_polls_def Experiment_def record_trial_def next_trial_def
  show_end_def save_results_def show_break_def analysis_def
  NUM_REPEATED_CONFIGS_def NUM_NOVEL_CONFIGS_def NUM_BLOCKS_def
  contains_point_def cfg0_def Stimulus_def STIM_SIZE_def CELL_SIZE_def WIDTH_def HEIGHT_def
  GRID_START_X_def GRID_START_Y_def round3_def round_half_even_def Let_def

lemma gerar_resultados_numeral:
  "gerar_resultados p (numeral k) g =
     (let (r, g1) = random_random g
      in case (if r < freq_perda p then random_choice (valores_perda p) g1 else Inr (0, g1)) of
           Inl e \<Rightarrow> Inl e
         | Inr (perda, g2) \<Rightarrow>
             (case gerar_resultados p (pred_numeral k) g2 of
                Inl e \<Rightarrow> Inl e
              | Inr (rest, g3) \<Rightarrow>
                  Inr ((recompensa p, perda, recompensa p - perda) # rest, g3)))"
  by (simp only: numeral_eq_Suc gerar_resultados.simps Let_def)

lemmas igt_eval =
  igt_after_def igt_start_def igt_polls_def igt_world_def IowaGamblingTask_def
  gerar_resultados_baralhos_def gerar_resultados_numeral random_random_def random_choice_def
  advance_def BARALHO_A_def BARALHO_B_def BARALHO_C_def BARALHO_D_def DINHEIRO_INICIAL_def
  criar_retangulos_baralhos_def Rect_def collidepoint_def LARGURA_TELA_def ALTURA_TELA_def
  DURACAO_FEEDBACK_def executar_frame_def desenhar_tela_instrucoes_def
  desenhar_tela_principal_def desenhar_feedback_def desenhar_resultados_def
  processar_escolha_def event_get_def time_time_def salvar_dados_def calcular_resultados_def
  round3_def round_half_even_def pontos_def Let_def

lemma cct_after_1:
  "state (fst (cct_after ev 1)) = Fixation \<and> fixation_start_time (fst (cct_after ev 1)) = 0 \<and>
   length (repeated_configs (fst (cct_after ev 1))) = 12 \<and>
   current_trial (fst (cct_after ev 1)) = 0 \<and>
   rnd (snd (cct_after ev 1)) = (\<lambda>i. 0) \<and> clk (snd (cct_after ev 1)) 2 = 14"
  by (simp add: cct_eval)

lemma cct_after_2:
  "state (fst (cct_after ev 2)) = Trial \<and> current_config (fst (cct_after ev 2)) = Some cfg0 \<and>
   trial_results (fst (cct_after ev 2)) = [] \<and> trial_start_time (fst (cct_after ev 2)) = 14 \<and>
   clk (snd (cct_after ev 2)) 0 = 16"
  by (simp add: cct_eval)

lemma cct_step_2: "run_step (cct_after ev 1) = Returned (cct_after ev 2)"
  by (simp add: cct_eval)

lemma cct_after_3:
  "trial_results (fst (cct_after ev 3)) =
     [\<lparr> td_participant = ''p1'', td_block = 1, td_trial = 1, td_configuration_id = - 1,
        td_is_repeated = False, td_response_time = 2, td_is_correct = True,
        td_target_position = (0, 0) \<rparr>]"
  by (simp add: cct_eval)


lemma igt_after_1:
  "estado (fst (igt_after 1)) = Principal \<and> tentativa_atual (fst (igt_after 1)) = 0 \<and>
   length (resultados_baralhos (fst (igt_after 1)) Deck_A) = 3"
  by (simp add: igt_eval)

lemma igt_after_2:
  "estado (fst (igt_after 2)) = Feedback \<and> clk (snd (igt_after 2)) 0 = 16"
  by (simp add: igt_eval)

lemma igt_after_3:
  "estado (fst (igt_after 3)) = Principal \<and> clk (snd (igt_after 3)) 0 = 18"
  by (simp add: igt_eval)

lemma igt_after_4:
  "map d_tempo_reacao (dados (fst (igt_after 4))) = [2, 6]"
  by (simp add: igt_eval)


section \<open>Instances of the theorems and counterexamples to the claims as stated\<close>

text \<open>
  A session of one planned trial in which the batch of the only trial holds two pointer
  events: the second is processed after the trial counter has reached the end of the
  schedule, the run ends with IndexError, and the exit path that saves is never reached.
\<close>

lemma two_choices_in_last_batch:
  "is_Raised (executar 1 1 2 (igt_start 1
      [([KEYDOWN K_SPACE], (0, 0)),
       ([MOUSEBUTTONDOWN 1 (200, 300), MOUSEBUTTONDOWN 1 (200, 300)], (200, 300))])) \<and>
   dados_csv (files (snd (final (executar 1 1 2 (igt_start 1
      [([KEYDOWN K_SPACE], (0, 0)),
       ([MOUSEBUTTONDOWN 1 (200, 300), MOUSEBUTTONDOWN 1 (200, 300)], (200, 300))]))))) = None"
  by (simp add: igt_eval)

text \<open>
  C10 at the configuration of the all-zero tape: the target and the first distractor are
  a full cell apart, and the point (210, 95) lies in the hit region of the target only.
\<close>

theorem hit_regions_disjoint_witness:
  "generate 6 12 (- 1) False (\<lambda>i. 0) = Inr (cfg0, \<lambda>i. 0) \<and>
   (0::nat) < length (stimuli cfg0) \<and> (1::nat) < length (stimuli cfg0) \<and> (0::nat) \<noteq> 1 \<and>
   (CELL_SIZE \<le> \<bar>fst (screen_pos (stimuli cfg0 ! 0)) - fst (screen_pos (stimuli cfg0 ! 1))\<bar> \<or>
    CELL_SIZE \<le> \<bar>snd (screen_pos (stimuli cfg0 ! 0)) - snd (screen_pos (stimuli cfg0 ! 1))\<bar>) \<and>
   contains_point (stimuli cfg0 ! 0) (210, 95) \<and>
   \<not> contains_point (stimuli cfg0 ! 1) (210, 95)"
proof -
  have l: "(0::nat) < length (stimuli cfg0)" "(1::nat) < length (stimuli cfg0)"
    by (simp_all add: cfg0_def)
  have n: "(0::nat) \<noteq> 1" by simp
  have c: "contains_point (stimuli cfg0 ! 0) (210, 95)"
    by (simp add: cfg0_def contains_point_def Stimulus_def STIM_SIZE_def CELL_SIZE_def
        GRID_START_X_def GRID_START_Y_def WIDTH_def HEIGHT_def)
  show ?thesis
    using hit_regions_disjoint [OF generate_zero l n, of "(210, 95)"] generate_zero l c by simp
qed

text \<open>
  C3 at seven planned trials in two blocks of three: the seventh trial is in no block.
\<close>

theorem calcular_resultados_scores_witness:
  "(0::nat) < 2 \<and> (2::nat) \<le> 7 \<and>
   (\<exists>res res'.
      calcular_resultados 7 2
        (picks [Deck_C, Deck_C, Deck_D, Deck_A, Deck_B, Deck_C, Deck_A]) = Inr res \<and>
      pontuacao_liquida res = 1 \<and> length (pontuacoes_bloco res) = 2 \<and>
      calcular_resultados 7 2
        (take 6 (picks [Deck_C, Deck_C, Deck_D, Deck_A, Deck_B, Deck_C, Deck_A])) = Inr res' \<and>
      pontuacoes_bloco res' = pontuacoes_bloco res)"
  using calcular_resultados_scores
          [of 2 7 "picks [Deck_C, Deck_C, Deck_D, Deck_A, Deck_B, Deck_C, Deck_A]"]
  by (auto simp: picks_def)

text \<open>
  C2 at a session of three planned trials: the schedule of deck A, and a first choice of
  deck A, which records the tuple stored at index 0.
\<close>

theorem outcome_schedule_witness:
  "\<exists>s w t v. IowaGamblingTask 3 ''p1'' False (igt_world igt_polls) = Inr (s, w) \<and>
     estado s = Instrucoes \<and>
     length (resultados_baralhos s Deck_A) = 3 \<and>
     (\<forall>(r, pe, l) \<in> set (resultados_baralhos s Deck_A).
        r = 100 \<and> (pe = 0 \<or> pe \<in> {150, 200, 250, 300, 350}) \<and> l = r - pe) \<and>
     processar_escolha 3 Deck_A (s, w) = Inr (t, v) \<and>
     resultados_baralhos t = resultados_baralhos s \<and>
     (d_recompensa (last (dados t)), d_perda (last (dados t)), d_liquido (last (dados t)))
       = resultados_baralhos s Deck_A ! 0"
proof -
  let ?P = "\<lambda>s w. IowaGamblingTask 3 ''p1'' False (igt_world igt_polls) = Inr (s, w)"
  obtain s w where i: "?P s w" "estado s = Instrucoes"
    and sch: "\<forall>b. length (resultados_baralhos s b) = 3 \<and>
        (\<forall>(r, pe, l) \<in> set (resultados_baralhos s b). r = recompensa (baralhos b) \<and>
            (pe = 0 \<or> pe \<in> set (valores_perda (baralhos b))) \<and> l = r - pe)"
    and rep: "\<forall>b t v t' v'. processar_escolha 3 b (t, v) = Inr (t', v') \<longrightarrow>
        resultados_baralhos t' = resultados_baralhos t \<and>
        butlast (dados t') = dados t \<and>
        d_baralho (last (dados t')) = b \<and>
        (d_recompensa (last (dados t')), d_perda (last (dados t')), d_liquido (last (dados t')))
          = resultados_baralhos t b ! tentativa_atual t \<and>
        feedback_dados t' = Some (b, resultados_baralhos t b ! tentativa_atual t)"
    using outcome_schedule [of 3 "''p1''" False "igt_world igt_polls"] by blast
  have t0: "tentativa_atual s = 0"
    using IowaGamblingTask_ok[of 3 "''p1''" False "igt_world igt_polls"] i(1) by auto
  have "tentativa_atual s < length (resultados_baralhos s Deck_A)" using t0 sch by simp
  then obtain t v where p: "processar_escolha 3 Deck_A (s, w) = Inr (t, v)"
    using processar_escolha_ok by blast
  have a: "\<forall>(r, pe, l) \<in> set (resultados_baralhos s Deck_A).
        r = 100 \<and> (pe = 0 \<or> pe \<in> {150, 200, 250, 300, 350}) \<and> l = r - pe"
    using sch[rule_format, of Deck_A] by (simp add: BARALHO_A_def)
  show ?thesis using i sch a p rep[rule_format, OF p] t0 by auto
qed



text \<open>
  C9 fails as stated: Escape during the first trial, then Space on the end screen, saves
  an empty log; the CSV file is written, the analysis fails on the empty frame and no
  report exists, so no report line carries a sentinel.
\<close>

theorem empty_log_counterexample:
  "is_Exited (run ''p1'' 4 (cct_world
      [([KEYDOWN K_SPACE], (0, 0)), ([KEYDOWN K_ESCAPE], (0, 0)), ([KEYDOWN K_SPACE], (0, 0))])) \<and>
   csv_file (files (snd (final (run ''p1'' 4 (cct_world
      [([KEYDOWN K_SPACE], (0, 0)), ([KEYDOWN K_ESCAPE], (0, 0)), ([KEYDOWN K_SPACE], (0, 0))])))))
     = Some [] \<and>
   txt_file (files (snd (final (run ''p1'' 4 (cct_world
      [([KEYDOWN K_SPACE], (0, 0)), ([KEYDOWN K_ESCAPE], (0, 0)), ([KEYDOWN K_SPACE], (0, 0))])))))
     = None"
  by (simp add: cct_eval)

text \<open>
  C5 fails as stated: in the IGT session, iteration 3 reads the clock at 16 and returns
  from feedback to the main state; iteration 4 reads 18 at the second choice. The recorded
  time of that choice is 6 (since the first choice, at 12), not 18 - 16.
\<close>

theorem igt_reaction_time_counterexample:
  "estado (fst (igt_after 2)) = Feedback \<and> clk (snd (igt_after 2)) 0 = 16 \<and>
   estado (fst (igt_after 3)) = Principal \<and> clk (snd (igt_after 3)) 0 = 18 \<and>
   map d_tempo_reacao (dados (fst (igt_after 4))) = [2, 6] \<and> (6::rat) \<noteq> 18 - 16"
  using igt_after_2 igt_after_3 igt_after_4 by simp

lemma other_button_ignored: "button \<noteq> 1 \<Longrightarrow> run_trial_event (MOUSEBUTTONDOWN button pos) sw = Returned sw"
  by (simp add: run_trial_event_def split: prod.splits)

text \<open>
  C7 fails as stated: during a trial, a click of another button (button 3) on the centre
  of the target is ignored.
\<close>

theorem other_button_counterexample:
  "state (fst (cct_after QUIT 2)) = Trial \<and>
   current_config (fst (cct_after QUIT 2)) = Some cfg0 \<and>
   contains_point (target cfg0) (200, 100) \<and>
   run_trial_event (MOUSEBUTTONDOWN 3 (200, 100)) (cct_after QUIT 2) = Returned (cct_after QUIT 2)"
proof -
  have "contains_point (target cfg0) (200, 100)"
    by (simp add: cfg0_def contains_point_def Stimulus_def STIM_SIZE_def CELL_SIZE_def
        GRID_START_X_def GRID_START_Y_def WIDTH_def HEIGHT_def)
  then show ?thesis using cct_after_2[of QUIT] by (simp add: other_button_ignored)
qed


text \<open>
  C5 as amended, on the example sessions: the second iteration of the CCT enters the trial
  state with baseline 14, and a click on the target read at 16 is recorded as 2; the first
  choice of the IGT is timed from \<open>tempo_inicio\<close>.
\<close>

theorem reaction_time_baseline_witness:
  "state (fst (cct_after QUIT 1)) = Fixation \<and>
   run_step (cct_after QUIT 1) = Returned (cct_after QUIT 2) \<and>
   state (fst (cct_after QUIT 2)) = Trial \<and>
   trial_start_time (fst (cct_after QUIT 2)) = 14 \<and>
   current_config (fst (cct_after QUIT 2)) = Some cfg0 \<and>
   contains_point (target cfg0) (200, 100) \<and>
   (\<exists>c2. run_trial_event (MOUSEBUTTONDOWN 1 (200, 100)) (cct_after QUIT 2) =
            Returned (c2, (snd (cct_after QUIT 2))\<lparr>clk := advance (clk (snd (cct_after QUIT 2)))\<rparr>) \<and>
         td_response_time (last (trial_results c2)) = 2) \<and>
   (\<exists>s' w'. processar_escolha 3 Deck_A (igt_after 1) = Inr (s', w') \<and>
         d_tempo_reacao (last (dados s')) =
           round3 (clk (snd (igt_after 1)) 0 - tempo_inicio (fst (igt_after 1))))"
proof -
  note a1 = cct_after_1[of QUIT] and a2 = cct_after_2[of QUIT] and st = cct_step_2[of QUIT]
  have h: "contains_point (target cfg0) (200, 100)"
    by (simp add: cfg0_def contains_point_def Stimulus_def STIM_SIZE_def CELL_SIZE_def
        GRID_START_X_def GRID_START_Y_def WIDTH_def HEIGHT_def)
  have 1: "trial_start_time (fst (cct_after QUIT 2)) = 14"
    using reaction_time_baseline [where c = "fst (cct_after QUIT 1)"
        and v = "snd (cct_after QUIT 1)" and c' = "fst (cct_after QUIT 2)"
        and v' = "snd (cct_after QUIT 2)",
        THEN conjunct1] a1 a2 st
    by simp
  have r: "round3 (16 - 14) = 2" by (simp add: round3_def round_half_even_def)
  have 2: "\<exists>c2. run_trial_event (MOUSEBUTTONDOWN 1 (200, 100)) (cct_after QUIT 2) =
            Returned (c2, (snd (cct_after QUIT 2))\<lparr>clk := advance (clk (snd (cct_after QUIT 2)))\<rparr>) \<and>
         td_response_time (last (trial_results c2)) = 2"
    using reaction_time_baseline [where cfg = cfg0
        and pos = "(200, 100)" and c = "fst (cct_after QUIT 2)" and v = "snd (cct_after QUIT 2)",
        THEN conjunct2, THEN conjunct1]
      a2 h r
    by auto
  have "tentativa_atual (fst (igt_after 1)) < length (resultados_baralhos (fst (igt_after 1)) Deck_A)"
    using igt_after_1 by simp
  then obtain s' w' where p: "processar_escolha 3 Deck_A (fst (igt_after 1), snd (igt_after 1)) = Inr (s', w')"
    using processar_escolha_ok by blast
  have 3: "\<exists>s' w'. processar_escolha 3 Deck_A (igt_after 1) = Inr (s', w') \<and>
         d_tempo_reacao (last (dados s')) =
           round3 (clk (snd (igt_after 1)) 0 - tempo_inicio (fst (igt_after 1)))"
    using reaction_time_baseline [where nt = 3
        and b = Deck_A and s = "fst (igt_after 1)" and w = "snd (igt_after 1)"
        and s' = s' and w' = w',
        THEN conjunct2, THEN conjunct2, THEN conjunct1] p
    by auto
  show ?thesis using a1 a2 st h 1 2 3 by simp
qed

text \<open>
  C7 as amended, on the first trial of the example session: a left click on the target is
  recorded as correct, one on the distractor centred at (600, 500) as incorrect, and one
  at the screen corner changes nothing.
\<close>

theorem left_click_in_trial_witness:
  "generate 6 12 (- 1) False (\<lambda>i. 0) = Inr (cfg0, \<lambda>i. 0) \<and>
   current_config (fst (cct_after QUIT 2)) = Some cfg0 \<and>
   (\<exists>stim \<in> set (stimuli cfg0). contains_point stim (200, 100)) \<and>
   (\<exists>r c'. run_trial_event (MOUSEBUTTONDOWN 1 (200, 100)) (cct_after QUIT 2) =
              Returned (c', (snd (cct_after QUIT 2))\<lparr>clk := advance (clk (snd (cct_after QUIT 2)))\<rparr>) \<and>
          trial_results c' = trial_results (fst (cct_after QUIT 2)) @ [r] \<and> td_is_correct r) \<and>
   (\<exists>stim \<in> set (stimuli cfg0). contains_point stim (600, 500)) \<and>
   (\<exists>r c'. run_trial_event (MOUSEBUTTONDOWN 1 (600, 500)) (cct_after QUIT 2) =
              Returned (c', (snd (cct_after QUIT 2))\<lparr>clk := advance (clk (snd (cct_after QUIT 2)))\<rparr>) \<and>
          trial_results c' = trial_results (fst (cct_after QUIT 2)) @ [r] \<and> \<not> td_is_correct r) \<and>
   \<not> (\<exists>stim \<in> set (stimuli cfg0). contains_point stim (0, 0)) \<and>
   run_trial_event (MOUSEBUTTONDOWN 1 (0, 0)) (cct_after QUIT 2) = Returned (cct_after QUIT 2)"
proof -
  note a2 = cct_after_2[of QUIT]
  have cc: "current_config (fst (cct_after QUIT 2)) = Some cfg0" using a2 by simp
  note geo = cfg0_def contains_point_def Stimulus_def STIM_SIZE_def CELL_SIZE_def
        GRID_START_X_def GRID_START_Y_def WIDTH_def HEIGHT_def
  have h1: "\<exists>stim \<in> set (stimuli cfg0). contains_point stim (200, 100)"
    and t1: "contains_point (target cfg0) (200, 100)"
    by (simp_all add: geo)
  have h2: "\<exists>stim \<in> set (stimuli cfg0). contains_point stim (600, 500)"
    and t2: "\<not> contains_point (target cfg0) (600, 500)"
    by (simp_all add: geo)
  have h3: "\<not> (\<exists>stim \<in> set (stimuli cfg0). contains_point stim (0, 0))"
    by (simp add: geo)
  have 1: "\<exists>r c'. run_trial_event (MOUSEBUTTONDOWN 1 (200, 100)) (cct_after QUIT 2) =
              Returned (c', (snd (cct_after QUIT 2))\<lparr>clk := advance (clk (snd (cct_after QUIT 2)))\<rparr>) \<and>
          trial_results c' = trial_results (fst (cct_after QUIT 2)) @ [r] \<and> td_is_correct r"
    using left_click_in_trial [OF generate_zero cc, where pos = "(200, 100)"
        and v = "snd (cct_after QUIT 2)"] h1 t1
    by auto
  have 2: "\<exists>r c'. run_trial_event (MOUSEBUTTONDOWN 1 (600, 500)) (cct_after QUIT 2) =
              Returned (c', (snd (cct_after QUIT 2))\<lparr>clk := advance (clk (snd (cct_after QUIT 2)))\<rparr>) \<and>
          trial_results c' = trial_results (fst (cct_after QUIT 2)) @ [r] \<and> \<not> td_is_correct r"
    using left_click_in_trial [OF generate_zero cc, where pos = "(600, 500)"
        and v = "snd (cct_after QUIT 2)"] h2 t2
    by auto
  have 3: "run_trial_event (MOUSEBUTTONDOWN 1 (0, 0)) (cct_after QUIT 2) = Returned (cct_after QUIT 2)"
    using left_click_in_trial [OF generate_zero cc, where pos = "(0, 0)"
        and v = "snd (cct_after QUIT 2)"] h3
    by auto
  show ?thesis using generate_zero cc h1 1 h2 2 h3 3 by blast
qed

text \<open>
  C8 on the state after setup: a draw of 0 gives a novel configuration; a draw of
  \<open>2 ^ 52\<close>, which is the fraction 1/2, at trial index 0 gives the stored configuration 0.
\<close>

theorem trial_type_selection_witness:
  "fst (random_random (rnd (snd (cct_after QUIT 1)))) < 1 / 2 \<and>
   (\<exists>cfg g2. config_id cfg = - 1 \<and> \<not> is_repeated cfg \<and>
      prepare_trial (cct_after QUIT 1) =
        Returned ((fst (cct_after QUIT 1))
                    \<lparr>current_config := Some cfg,
                      trial_start_time := clk (snd (cct_after QUIT 1)) 0\<rparr>,
                  (snd (cct_after QUIT 1))
                    \<lparr>rnd := g2, clk := advance (clk (snd (cct_after QUIT 1)))\<rparr>)) \<and>
   \<not> fst (random_random (\<lambda>i. 2 ^ 52)) < 1 / 2 \<and>
   current_trial (fst (cct_after QUIT 1)) < NUM_REPEATED_CONFIGS \<and>
   length (repeated_configs (fst (cct_after QUIT 1))) = NUM_REPEATED_CONFIGS \<and>
   prepare_trial (fst (cct_after QUIT 1), (snd (cct_after QUIT 1))\<lparr>rnd := \<lambda>i. 2 ^ 52\<rparr>) =
     Returned ((fst (cct_after QUIT 1))
                 \<lparr>current_config := Some (repeated_configs (fst (cct_after QUIT 1)) ! 0),
                   trial_start_time := clk (snd (cct_after QUIT 1)) 0\<rparr>,
               (snd (cct_after QUIT 1))
                 \<lparr>rnd := \<lambda>i. 2 ^ 52, clk := advance (clk (snd (cct_after QUIT 1)))\<rparr>)"
proof -
  note a1 = cct_after_1[of QUIT]
  have lo: "fst (random_random (rnd (snd (cct_after QUIT 1)))) < 1 / 2"
    using a1 by (simp add: random_random_def)
  have hi: "\<not> fst (random_random (\<lambda>i. 2 ^ 52)) < 1 / 2"
    by (simp add: random_random_def)
  have sn: "snd (random_random (\<lambda>i. 2 ^ 52)) = (\<lambda>i. 2 ^ 52)"
    by (simp add: random_random_def advance_def)
  have n: "current_trial (fst (cct_after QUIT 1)) < NUM_REPEATED_CONFIGS"
    "length (repeated_configs (fst (cct_after QUIT 1))) = NUM_REPEATED_CONFIGS"
    using a1 by (simp_all add: NUM_REPEATED_CONFIGS_def)
  have 1: "\<exists>cfg g2. config_id cfg = - 1 \<and> \<not> is_repeated cfg \<and>
      prepare_trial (cct_after QUIT 1) =
        Returned ((fst (cct_after QUIT 1))
                    \<lparr>current_config := Some cfg,
                      trial_start_time := clk (snd (cct_after QUIT 1)) 0\<rparr>,
                  (snd (cct_after QUIT 1))
                    \<lparr>rnd := g2, clk := advance (clk (snd (cct_after QUIT 1)))\<rparr>)"
    using trial_type_selection [where pid = "''p1''" and w = "cct_world []"
        and v = "snd (cct_after QUIT 1)" and c = "fst (cct_after QUIT 1)"] lo
    by auto
  have 2: "prepare_trial (fst (cct_after QUIT 1), (snd (cct_after QUIT 1))\<lparr>rnd := \<lambda>i. 2 ^ 52\<rparr>) =
     Returned ((fst (cct_after QUIT 1))
                 \<lparr>current_config := Some (repeated_configs (fst (cct_after QUIT 1)) ! 0),
                   trial_start_time := clk (snd (cct_after QUIT 1)) 0\<rparr>,
               (snd (cct_after QUIT 1))
                 \<lparr>rnd := \<lambda>i. 2 ^ 52, clk := advance (clk (snd (cct_after QUIT 1)))\<rparr>)"
    using trial_type_selection [where pid = "''p1''" and w = "cct_world []"
        and v = "(snd (cct_after QUIT 1))\<lparr>rnd := \<lambda>i. 2 ^ 52\<rparr>"
        and c = "fst (cct_after QUIT 1)"] hi sn n a1
    by (simp add: NUM_REPEATED_CONFIGS_def)
  show ?thesis using lo 1 hi n 2 by blast
qed

text \<open>
  C9 as amended, on the log after one correct novel trial: the line of block 1 is
  (1, 0, 2, 2) and the line of block 2 is (2, 0, 0, 0).
\<close>

theorem empty_group_sentinel_witness:
  "trial_results (fst (cct_after QUIT 3)) \<noteq> [] \<and>
   group_times (trial_results (fst (cct_after QUIT 3))) 1 True = [] \<and>
   group_times (trial_results (fst (cct_after QUIT 3))) 1 False = [2] \<and>
   (\<exists>rep. analysis (trial_results (fst (cct_after QUIT 3))) = Inr rep \<and>
      length (block_lines rep) = 5 \<and>
      block_lines rep ! 0 = (1, 0, 2, 2) \<and> block_lines rep ! 1 = (2, 0, 0, 0))"
proof -
  note a3 = cct_after_3[of QUIT]
  have ne: "trial_results (fst (cct_after QUIT 3)) \<noteq> []" using a3 by simp
  have g: "group_times (trial_results (fst (cct_after QUIT 3))) 1 True = []"
    "group_times (trial_results (fst (cct_after QUIT 3))) 1 False = [2]"
    "group_times (trial_results (fst (cct_after QUIT 3))) 2 True = []"
    "group_times (trial_results (fst (cct_after QUIT 3))) 2 False = []"
    using a3 by (simp_all add: group_times_def)
  obtain rep where r: "analysis (trial_results (fst (cct_after QUIT 3))) = Inr rep"
    "length (block_lines rep) = NUM_BLOCKS"
    and l: "\<forall>i. 1 \<le> i \<and> i \<le> NUM_BLOCKS \<longrightarrow>
        (\<exists>rt nv. block_lines rep ! (i - 1) = (i, rt, nv, nv - rt) \<and>
           (group_times (trial_results (fst (cct_after QUIT 3))) i True = [] \<longrightarrow> rt = 0) \<and>
           (group_times (trial_results (fst (cct_after QUIT 3))) i False = [] \<longrightarrow> nv = 0) \<and>
           (group_times (trial_results (fst (cct_after QUIT 3))) i True \<noteq> [] \<longrightarrow>
              rt = sum_list (group_times (trial_results (fst (cct_after QUIT 3))) i True) /
                   of_nat (length (group_times (trial_results (fst (cct_after QUIT 3))) i True))) \<and>
           (group_times (trial_results (fst (cct_after QUIT 3))) i False \<noteq> [] \<longrightarrow>
              nv = sum_list (group_times (trial_results (fst (cct_after QUIT 3))) i False) /
                   of_nat (length (group_times (trial_results (fst (cct_after QUIT 3))) i False))))"
    using empty_group_sentinel [OF ne, where c = Experiment and v = "cct_world []"] by blast
  have l1: "block_lines rep ! 0 = (1, 0, 2, 2)"
    using l[rule_format, of 1] g by (auto simp: NUM_BLOCKS_def)
  have l2: "block_lines rep ! 1 = (2, 0, 0, 0)"
    using l[rule_format, of 2] g by (auto simp: NUM_BLOCKS_def)
  show ?thesis using ne g r l1 l2 by (auto simp: NUM_BLOCKS_def)
qed

end
